theory Spec2Isabelle
  imports Main
begin

section \<open>Data model of the migration\<close>

text \<open>
  The schema of \<^verbatim>\<open>supabase/migrations/20250722105648-...sql\<close>. A table is the list of
  its rows. UUIDs are natural numbers. \<^verbatim>\<open>DECIMAL(15,2)\<close> values are integers counting
  hundredths, \<^verbatim>\<open>DECIMAL(15,6)\<close> values integers counting millionths; a value that does
  not fit the column raises a numeric overflow. \<^verbatim>\<open>TEXT\<close> columns guarded by a
  \<^verbatim>\<open>CHECK (... IN (...))\<close> stay strings, and the check is part of the statement that
  writes them. Nullable columns are options. The \<^verbatim>\<open>created_at\<close> and
  \<^verbatim>\<open>updated_at\<close> columns, which no policy and no balance or provisioning trigger
  reads, are left out.
\<close>

type_synonym uuid = nat

datatype quarter_period = Q1 | Q2 | Q3 | Q4

datatype currency_type = USD | GHS

record profile =
  pr_id :: uuid
  pr_user_id :: uuid
  pr_full_name :: string
  pr_role :: string

record income_record =
  ir_id :: uuid
  ir_user_id :: uuid
  ir_quarter :: quarter_period
  ir_year :: int
  ir_amount :: int
  ir_currency :: currency_type
  ir_source :: "string option"
  ir_description :: "string option"

record expense_category =
  ec_id :: uuid
  ec_name :: string
  ec_description :: "string option"

record expense_record =
  er_id :: uuid
  er_user_id :: uuid
  er_category_id :: uuid
  er_quarter :: quarter_period
  er_year :: int
  er_amount :: int
  er_currency :: currency_type
  er_description :: "string option"
  er_expense_date :: string

record savings_goal =
  sg_id :: uuid
  sg_user_id :: uuid
  sg_name :: string
  sg_target_amount :: int
  sg_current_amount :: int
  sg_currency :: currency_type
  sg_target_date :: "string option"
  sg_goal_type :: string
  sg_description :: "string option"
  sg_is_active :: bool

record savings_transaction =
  st_id :: uuid
  st_savings_goal_id :: uuid
  st_amount :: int
  st_transaction_type :: string
  st_description :: "string option"
  st_transaction_date :: string

record currency_rate =
  cr_id :: uuid
  cr_from_currency :: currency_type
  cr_to_currency :: currency_type
  cr_rate :: int
  cr_date :: string

text \<open>
  Modelled from the spec: the identity table \<^verbatim>\<open>auth.users\<close> belongs to the hosting
  platform and is not declared in the migration. The identity source supplies an
  identity id, an email and a metadata object; the metadata object is a list of
  key and text-value pairs, read with \<^verbatim>\<open>->>\<close>.
\<close>

record auth_user =
  au_id :: uuid
  au_email :: string
  au_raw_user_meta_data :: "(string \<times> string) list"

record database =
  auth_users :: "auth_user list"
  profiles :: "profile list"
  income_records :: "income_record list"
  expense_categories :: "expense_category list"
  expense_records :: "expense_record list"
  savings_goals :: "savings_goal list"
  savings_transactions :: "savings_transaction list"
  currency_rates :: "currency_rate list"

datatype error =
  UniqueViolation
  | ForeignKeyViolation
  | CheckViolation
  | NumericOverflow
  | RlsViolation
  | InfiniteRecursion

text \<open>The range of a \<^verbatim>\<open>DECIMAL(15,2)\<close> column, in hundredths.\<close>

definition decimal_15_2 :: "int \<Rightarrow> bool" where
  "decimal_15_2 x = (- 1000000000000000 < x \<and> x < 1000000000000000)"

section \<open>Row level security\<close>

text \<open>
  Every table has \<^verbatim>\<open>ENABLE ROW LEVEL SECURITY\<close> (not \<^verbatim>\<open>FORCE\<close>). A session is
  either subject to the policies, with \<^verbatim>\<open>auth.uid()\<close> the identity of the caller or
  NULL for an anonymous one, or it is the table owner, to whom the policies do not
  apply. All policies of the migration are permissive: a row passes when one policy
  that applies to the command passes, and no row passes when none applies. A policy
  without \<^verbatim>\<open>WITH CHECK\<close> checks new rows with its \<^verbatim>\<open>USING\<close> expression. A comparison
  with a NULL \<^verbatim>\<open>auth.uid()\<close> is not true.
\<close>

datatype session = Rls "uuid option" | BypassRls

datatype command = SELECT | INSERT | UPDATE | DELETE

datatype policy_for = FOR_SELECT | FOR_INSERT | FOR_UPDATE | FOR_DELETE | FOR_ALL

datatype table =
  Profiles
  | Income_records
  | Expense_categories
  | Expense_records
  | Savings_goals
  | Savings_transactions
  | Currency_rates

text \<open>
  A policy: its name, its command, its expressions, and the tables its expressions
  select from in a sub-select (\<open>pol_subselects\<close>).
\<close>

record 'r policy =
  pol_name :: string
  pol_for :: policy_for
  pol_using :: "(database \<Rightarrow> uuid option \<Rightarrow> 'r \<Rightarrow> bool) option"
  pol_with_check :: "(database \<Rightarrow> uuid option \<Rightarrow> 'r \<Rightarrow> bool) option"
  pol_subselects :: "table list"

fun applies_to :: "policy_for \<Rightarrow> command \<Rightarrow> bool" where
  "applies_to FOR_ALL c = True"
| "applies_to FOR_SELECT c = (c = SELECT)"
| "applies_to FOR_INSERT c = (c = INSERT)"
| "applies_to FOR_UPDATE c = (c = UPDATE)"
| "applies_to FOR_DELETE c = (c = DELETE)"

definition using_ok :: "'r policy list \<Rightarrow> command \<Rightarrow> database \<Rightarrow> uuid option \<Rightarrow> 'r \<Rightarrow> bool" where
  "using_ok ps c db uid r =
     list_ex (\<lambda>p. applies_to (pol_for p) c \<and>
                  (case pol_using p of Some q \<Rightarrow> q db uid r | None \<Rightarrow> False)) ps"

definition check_ok :: "'r policy list \<Rightarrow> command \<Rightarrow> database \<Rightarrow> uuid option \<Rightarrow> 'r \<Rightarrow> bool" where
  "check_ok ps c db uid r =
     list_ex (\<lambda>p. applies_to (pol_for p) c \<and>
                  (case pol_with_check p of
                     Some q \<Rightarrow> q db uid r
                   | None \<Rightarrow> (case pol_using p of Some q \<Rightarrow> q db uid r | None \<Rightarrow> False))) ps"

text \<open>
  What each command needs of the policies. A \<^verbatim>\<open>SELECT\<close> reads the rows that pass the
  select policies. An \<^verbatim>\<open>UPDATE\<close> or \<^verbatim>\<open>DELETE\<close> with a \<^verbatim>\<open>WHERE\<close> clause reads the
  row, so an existing row is a target when it passes the select policies and the
  policies of the command. A row written by \<^verbatim>\<open>INSERT\<close> must pass the insert checks;
  a row written by \<^verbatim>\<open>UPDATE\<close> must pass the update checks and the select policies.
\<close>

definition allowed_select :: "'r policy list \<Rightarrow> database \<Rightarrow> session \<Rightarrow> 'r \<Rightarrow> bool" where
  "allowed_select ps db s r =
     (case s of BypassRls \<Rightarrow> True | Rls uid \<Rightarrow> using_ok ps SELECT db uid r)"

definition allowed_existing :: "'r policy list \<Rightarrow> command \<Rightarrow> database \<Rightarrow> session \<Rightarrow> 'r \<Rightarrow> bool" where
  "allowed_existing ps c db s r =
     (case s of BypassRls \<Rightarrow> True
      | Rls uid \<Rightarrow> using_ok ps SELECT db uid r \<and> using_ok ps c db uid r)"

definition allowed_new :: "'r policy list \<Rightarrow> command \<Rightarrow> database \<Rightarrow> session \<Rightarrow> 'r \<Rightarrow> bool" where
  "allowed_new ps c db s r =
     (case s of BypassRls \<Rightarrow> True
      | Rls uid \<Rightarrow>
          (if c = UPDATE then check_ok ps UPDATE db uid r \<and> using_ok ps SELECT db uid r
           else check_ok ps c db uid r))"

text \<open>
  The statements on one table, for any row type. A denied \<^verbatim>\<open>SELECT\<close>,
  \<^verbatim>\<open>UPDATE\<close> or \<^verbatim>\<open>DELETE\<close> finds no row; a denied new row fails the statement.
  \<open>setc\<close> computes the new row and runs the constraints of the table.
\<close>

definition select_rows :: "'r policy list \<Rightarrow> database \<Rightarrow> session \<Rightarrow> ('r \<Rightarrow> bool) \<Rightarrow> 'r list \<Rightarrow> 'r list" where
  "select_rows ps db s wh rows = filter (\<lambda>r. wh r \<and> allowed_select ps db s r) rows"

definition target_rows :: "'r policy list \<Rightarrow> command \<Rightarrow> database \<Rightarrow> session \<Rightarrow> ('r \<Rightarrow> bool) \<Rightarrow> 'r list \<Rightarrow> 'r list" where
  "target_rows ps c db s wh rows = filter (\<lambda>r. wh r \<and> allowed_existing ps c db s r) rows"

definition delete_rows :: "'r policy list \<Rightarrow> database \<Rightarrow> session \<Rightarrow> ('r \<Rightarrow> bool) \<Rightarrow> 'r list \<Rightarrow> 'r list" where
  "delete_rows ps db s wh rows = filter (\<lambda>r. \<not> (wh r \<and> allowed_existing ps DELETE db s r)) rows"

fun update_rows :: "'r policy list \<Rightarrow> database \<Rightarrow> session \<Rightarrow> ('r \<Rightarrow> bool) \<Rightarrow> ('r \<Rightarrow> error + 'r) \<Rightarrow> 'r list \<Rightarrow> error + 'r list" where
  "update_rows ps db s wh setc [] = Inr []"
| "update_rows ps db s wh setc (r # rs) =
     (if wh r \<and> allowed_existing ps UPDATE db s r then
        (case setc r of
           Inl e \<Rightarrow> Inl e
         | Inr r' \<Rightarrow>
             if allowed_new ps UPDATE db s r' then
               (case update_rows ps db s wh setc rs of
                  Inl e \<Rightarrow> Inl e
                | Inr rs' \<Rightarrow> Inr (r' # rs'))
             else Inl RlsViolation)
      else
        (case update_rows ps db s wh setc rs of
           Inl e \<Rightarrow> Inl e
         | Inr rs' \<Rightarrow> Inr (r # rs')))"

text \<open>
  \<^verbatim>\<open>UPDATE ... SET\<close> with constants and no \<^verbatim>\<open>WHERE\<close> clause reads no row: only
  the update policies filter the existing rows and check the new ones.
\<close>

fun update_all_rows :: "'r policy list \<Rightarrow> database \<Rightarrow> session \<Rightarrow> ('r \<Rightarrow> error + 'r) \<Rightarrow> 'r list \<Rightarrow> error + 'r list" where
  "update_all_rows ps db s setc [] = Inr []"
| "update_all_rows ps db s setc (r # rs) =
     (if (case s of BypassRls \<Rightarrow> True | Rls uid \<Rightarrow> using_ok ps UPDATE db uid r) then
        (case setc r of
           Inl e \<Rightarrow> Inl e
         | Inr r' \<Rightarrow>
             if (case s of BypassRls \<Rightarrow> True | Rls uid \<Rightarrow> check_ok ps UPDATE db uid r') then
               (case update_all_rows ps db s setc rs of
                  Inl e \<Rightarrow> Inl e
                | Inr rs' \<Rightarrow> Inr (r' # rs'))
             else Inl RlsViolation)
      else
        (case update_all_rows ps db s setc rs of
           Inl e \<Rightarrow> Inl e
         | Inr rs' \<Rightarrow> Inr (r # rs')))"

definition insert_row :: "'r policy list \<Rightarrow> database \<Rightarrow> session \<Rightarrow> 'r \<Rightarrow> 'r list \<Rightarrow> error + 'r list" where
  "insert_row ps db s new rows =
     (if allowed_new ps INSERT db s new then Inr (rows @ [new]) else Inl RlsViolation)"

subsection \<open>The policies, one entry for each CREATE POLICY\<close>

text \<open>
  \<^verbatim>\<open>EXISTS (SELECT 1 FROM public.profiles WHERE user_id = auth.uid() AND role = 'admin')\<close>,
  the expression of every admin policy, as a condition on the stored rows. The
  sub-select is itself a read of \<^verbatim>\<open>profiles\<close> by the caller, and the select policy
  ``Admins can view all profiles'' of \<^verbatim>\<open>profiles\<close> contains the same sub-select: the
  engine refuses every statement whose policies lead to it, before a row is read (see
  \<open>recursion_detected\<close> below), so in a session subject to the policies this condition
  is never evaluated.
\<close>

definition exists_admin_profile :: "database \<Rightarrow> uuid option \<Rightarrow> bool" where
  "exists_admin_profile db uid =
     list_ex (\<lambda>p. Some (pr_user_id p) = uid \<and> pr_role p = ''admin'') (profiles db)"

definition profiles_policies :: "profile policy list" where
  "profiles_policies =
    [\<lparr>pol_name = ''Users can view their own profile'', pol_for = FOR_SELECT,
      pol_using = Some (\<lambda>db uid r. uid = Some (pr_user_id r)), pol_with_check = None,
      pol_subselects = []\<rparr>,
     \<lparr>pol_name = ''Users can update their own profile'', pol_for = FOR_UPDATE,
      pol_using = Some (\<lambda>db uid r. uid = Some (pr_user_id r)), pol_with_check = None,
      pol_subselects = []\<rparr>,
     \<lparr>pol_name = ''Admins can view all profiles'', pol_for = FOR_SELECT,
      pol_using = Some (\<lambda>db uid r. exists_admin_profile db uid), pol_with_check = None,
      pol_subselects = [Profiles]\<rparr>,
     \<lparr>pol_name = ''Admins can create profiles'', pol_for = FOR_INSERT,
      pol_using = None, pol_with_check = Some (\<lambda>db uid r. exists_admin_profile db uid),
      pol_subselects = [Profiles]\<rparr>]"

definition income_records_policies :: "income_record policy list" where
  "income_records_policies =
    [\<lparr>pol_name = ''Users can view their own income records'', pol_for = FOR_SELECT,
      pol_using = Some (\<lambda>db uid r. uid = Some (ir_user_id r)), pol_with_check = None,
      pol_subselects = []\<rparr>,
     \<lparr>pol_name = ''Users can create their own income records'', pol_for = FOR_INSERT,
      pol_using = None, pol_with_check = Some (\<lambda>db uid r. uid = Some (ir_user_id r)),
      pol_subselects = []\<rparr>,
     \<lparr>pol_name = ''Users can update their own income records'', pol_for = FOR_UPDATE,
      pol_using = Some (\<lambda>db uid r. uid = Some (ir_user_id r)), pol_with_check = None,
      pol_subselects = []\<rparr>,
     \<lparr>pol_name = ''Users can delete their own income records'', pol_for = FOR_DELETE,
      pol_using = Some (\<lambda>db uid r. uid = Some (ir_user_id r)), pol_with_check = None,
      pol_subselects = []\<rparr>]"

definition expense_categories_policies :: "expense_category policy list" where
  "expense_categories_policies =
    [\<lparr>pol_name = ''Everyone can view expense categories'', pol_for = FOR_SELECT,
      pol_using = Some (\<lambda>db uid r. True), pol_with_check = None,
      pol_subselects = []\<rparr>,
     \<lparr>pol_name = ''Admins can manage expense categories'', pol_for = FOR_ALL,
      pol_using = Some (\<lambda>db uid r. exists_admin_profile db uid), pol_with_check = None,
      pol_subselects = [Profiles]\<rparr>]"

definition expense_records_policies :: "expense_record policy list" where
  "expense_records_policies =
    [\<lparr>pol_name = ''Users can view their own expense records'', pol_for = FOR_SELECT,
      pol_using = Some (\<lambda>db uid r. uid = Some (er_user_id r)), pol_with_check = None,
      pol_subselects = []\<rparr>,
     \<lparr>pol_name = ''Users can create their own expense records'', pol_for = FOR_INSERT,
      pol_using = None, pol_with_check = Some (\<lambda>db uid r. uid = Some (er_user_id r)),
      pol_subselects = []\<rparr>,
     \<lparr>pol_name = ''Users can update their own expense records'', pol_for = FOR_UPDATE,
      pol_using = Some (\<lambda>db uid r. uid = Some (er_user_id r)), pol_with_check = None,
      pol_subselects = []\<rparr>,
     \<lparr>pol_name = ''Users can delete their own expense records'', pol_for = FOR_DELETE,
      pol_using = Some (\<lambda>db uid r. uid = Some (er_user_id r)), pol_with_check = None,
      pol_subselects = []\<rparr>]"

definition savings_goals_policies :: "savings_goal policy list" where
  "savings_goals_policies =
    [\<lparr>pol_name = ''Users can view their own savings goals'', pol_for = FOR_SELECT,
      pol_using = Some (\<lambda>db uid r. uid = Some (sg_user_id r)), pol_with_check = None,
      pol_subselects = []\<rparr>,
     \<lparr>pol_name = ''Users can create their own savings goals'', pol_for = FOR_INSERT,
      pol_using = None, pol_with_check = Some (\<lambda>db uid r. uid = Some (sg_user_id r)),
      pol_subselects = []\<rparr>,
     \<lparr>pol_name = ''Users can update their own savings goals'', pol_for = FOR_UPDATE,
      pol_using = Some (\<lambda>db uid r. uid = Some (sg_user_id r)), pol_with_check = None,
      pol_subselects = []\<rparr>,
     \<lparr>pol_name = ''Users can delete their own savings goals'', pol_for = FOR_DELETE,
      pol_using = Some (\<lambda>db uid r. uid = Some (sg_user_id r)), pol_with_check = None,
      pol_subselects = []\<rparr>]"

text \<open>
  \<^verbatim>\<open>EXISTS (SELECT 1 FROM public.savings_goals WHERE id = savings_goal_id AND user_id = auth.uid())\<close>.
  The sub-select is a read of \<^verbatim>\<open>savings_goals\<close> by the caller, so it sees the goals
  the caller may select.
\<close>

definition exists_own_goal :: "database \<Rightarrow> uuid option \<Rightarrow> savings_transaction \<Rightarrow> bool" where
  "exists_own_goal db uid t =
     (select_rows savings_goals_policies db (Rls uid)
        (\<lambda>g. sg_id g = st_savings_goal_id t \<and> Some (sg_user_id g) = uid)
        (savings_goals db) \<noteq> [])"

definition savings_transactions_policies :: "savings_transaction policy list" where
  "savings_transactions_policies =
    [\<lparr>pol_name = ''Users can view their own savings transactions'', pol_for = FOR_SELECT,
      pol_using = Some exists_own_goal, pol_with_check = None,
      pol_subselects = [Savings_goals]\<rparr>,
     \<lparr>pol_name = ''Users can create their own savings transactions'', pol_for = FOR_INSERT,
      pol_using = None, pol_with_check = Some exists_own_goal,
      pol_subselects = [Savings_goals]\<rparr>]"

definition currency_rates_policies :: "currency_rate policy list" where
  "currency_rates_policies =
    [\<lparr>pol_name = ''Everyone can view currency rates'', pol_for = FOR_SELECT,
      pol_using = Some (\<lambda>db uid r. True), pol_with_check = None,
      pol_subselects = []\<rparr>,
     \<lparr>pol_name = ''Admins can manage currency rates'', pol_for = FOR_ALL,
      pol_using = Some (\<lambda>db uid r. exists_admin_profile db uid), pol_with_check = None,
      pol_subselects = [Profiles]\<rparr>]"

subsection \<open>Policies that lead back to their own table\<close>

text \<open>
  The sub-selects of the policies that a statement applies: those of its command, and
  those of \<^verbatim>\<open>SELECT\<close> as well when the statement reads the rows.
\<close>

definition applicable_subselects :: "'r policy list \<Rightarrow> command list \<Rightarrow> table list" where
  "applicable_subselects ps cs =
     concat (map pol_subselects (filter (\<lambda>p. list_ex (applies_to (pol_for p)) cs) ps))"

text \<open>A table read in a sub-select is read under its own select policies.\<close>

fun select_subselects :: "table \<Rightarrow> table list" where
  "select_subselects Profiles = applicable_subselects profiles_policies [SELECT]"
| "select_subselects Income_records = applicable_subselects income_records_policies [SELECT]"
| "select_subselects Expense_categories = applicable_subselects expense_categories_policies [SELECT]"
| "select_subselects Expense_records = applicable_subselects expense_records_policies [SELECT]"
| "select_subselects Savings_goals = applicable_subselects savings_goals_policies [SELECT]"
| "select_subselects Savings_transactions = applicable_subselects savings_transactions_policies [SELECT]"
| "select_subselects Currency_rates = applicable_subselects currency_rates_policies [SELECT]"

text \<open>
  The engine adds the policies of a table to a query when it rewrites the query, and
  follows their sub-selects. \<open>active\<close> are the tables whose policies it is in the
  middle of adding. When the policies of \<open>rel\<close> have sub-selects and \<open>rel\<close> is active
  already, it raises ``infinite recursion detected in policy for relation''
  (\<^verbatim>\<open>42P17\<close>); otherwise it goes on into each table the sub-selects read, with \<open>rel\<close>
  active. This does not depend on the rows or on the caller.
\<close>

function recursion_detected :: "table list \<Rightarrow> table \<Rightarrow> table list \<Rightarrow> bool" where
  "recursion_detected active rel subs =
     (if subs = [] then False
      else if rel \<in> set active then True
      else list_ex (\<lambda>t. recursion_detected (rel # active) t (select_subselects t)) subs)"
  by pat_completeness auto
termination
proof (relation "measure (\<lambda>(active, rel, subs). card (UNIV - set active))")
  show "wf (measure (\<lambda>(active, rel, subs). card (UNIV - set active)))" by simp
next
  fix active :: "table list" and rel :: table and subs :: "table list" and t :: table
  assume "rel \<notin> set active"
  have fin: "finite (UNIV :: table set)"
  proof -
    have "(UNIV :: table set) = {Profiles, Income_records, Expense_categories, Expense_records,
        Savings_goals, Savings_transactions, Currency_rates}"
      by (auto intro: table.exhaust)
    then show ?thesis by (metis finite.emptyI finite.insertI)
  qed
  have "UNIV - set (rel # active) \<subset> UNIV - set active"
    using \<open>rel \<notin> set active\<close> by auto
  then have "card (UNIV - set (rel # active)) < card (UNIV - set active)"
    using fin by (intro psubset_card_mono) auto
  then show "((rel # active, t, select_subselects t), (active, rel, subs))
      \<in> measure (\<lambda>(active, rel, subs). card (UNIV - set active))"
    by simp
qed

declare recursion_detected.simps [simp del]

text \<open>
  Whether a statement on table \<open>t\<close> with the policies \<open>ps\<close>, applying the policies of
  the commands \<open>cs\<close>, is refused. The table owner's statements have no policies added.
\<close>

definition refused :: "session \<Rightarrow> table \<Rightarrow> 'r policy list \<Rightarrow> command list \<Rightarrow> bool" where
  "refused s t ps cs =
     (case s of BypassRls \<Rightarrow> False
      | Rls uid \<Rightarrow> recursion_detected [] t (applicable_subselects ps cs))"

text \<open>
  \<^verbatim>\<open>SELECT ... FROM expense_categories\<close>, \<^verbatim>\<open>FROM currency_rates\<close> and
  \<^verbatim>\<open>FROM profiles\<close> (the last is \<^verbatim>\<open>fetchUsers\<close> of the admin page), and
  \<^verbatim>\<open>INSERT INTO expense_categories\<close> with its primary key and its unique name.
\<close>

definition select_expense_categories :: "session \<Rightarrow> (expense_category \<Rightarrow> bool) \<Rightarrow> database \<Rightarrow> error + expense_category list" where
  "select_expense_categories s wh db =
     (if refused s Expense_categories expense_categories_policies [SELECT]
      then Inl InfiniteRecursion
      else Inr (select_rows expense_categories_policies db s wh (expense_categories db)))"

definition select_currency_rates :: "session \<Rightarrow> (currency_rate \<Rightarrow> bool) \<Rightarrow> database \<Rightarrow> error + currency_rate list" where
  "select_currency_rates s wh db =
     (if refused s Currency_rates currency_rates_policies [SELECT]
      then Inl InfiniteRecursion
      else Inr (select_rows currency_rates_policies db s wh (currency_rates db)))"

definition select_profiles :: "session \<Rightarrow> (profile \<Rightarrow> bool) \<Rightarrow> database \<Rightarrow> error + profile list" where
  "select_profiles s wh db =
     (if refused s Profiles profiles_policies [SELECT]
      then Inl InfiniteRecursion
      else Inr (select_rows profiles_policies db s wh (profiles db)))"

definition insert_expense_category :: "session \<Rightarrow> expense_category \<Rightarrow> database \<Rightarrow> error + database" where
  "insert_expense_category s new db =
     (if refused s Expense_categories expense_categories_policies [INSERT]
      then Inl InfiniteRecursion
      else case insert_row expense_categories_policies db s new (expense_categories db) of
        Inl e \<Rightarrow> Inl e
      | Inr cs \<Rightarrow>
          if list_ex (\<lambda>c. ec_id c = ec_id new \<or> ec_name c = ec_name new) (expense_categories db)
          then Inl UniqueViolation
          else Inr (db\<lparr>expense_categories := cs\<rparr>))"

section \<open>Savings transactions and the balance trigger\<close>

datatype tg_op = TG_INSERT | TG_UPDATE | TG_DELETE

text \<open>
  \<^verbatim>\<open>UPDATE public.savings_goals SET current_amount = ...\<close>: the new value must fit
  the column.
\<close>

definition set_current_amount :: "(int \<Rightarrow> int) \<Rightarrow> savings_goal \<Rightarrow> error + savings_goal" where
  "set_current_amount f g =
     (let v = f (sg_current_amount g)
      in if decimal_15_2 v then Inr (g\<lparr>sg_current_amount := v\<rparr>) else Inl NumericOverflow)"

text \<open>
  The trigger function. It is not \<^verbatim>\<open>SECURITY DEFINER\<close>, so its \<^verbatim>\<open>UPDATE\<close> runs in
  the session of the statement that fired it. With any other \<^verbatim>\<open>TG_OP\<close> it returns
  without a write.
\<close>

fun update_savings_goal_amount :: "session \<Rightarrow> tg_op \<Rightarrow> savings_transaction \<Rightarrow> database \<Rightarrow> error + database" where
  "update_savings_goal_amount s TG_INSERT new db =
     (case update_rows savings_goals_policies db s
             (\<lambda>g. sg_id g = st_savings_goal_id new)
             (set_current_amount (\<lambda>c. c +
                (if st_transaction_type new = ''deposit'' then st_amount new else - st_amount new)))
             (savings_goals db) of
        Inl e \<Rightarrow> Inl e
      | Inr gs \<Rightarrow> Inr (db\<lparr>savings_goals := gs\<rparr>))"
| "update_savings_goal_amount s TG_DELETE old db =
     (case update_rows savings_goals_policies db s
             (\<lambda>g. sg_id g = st_savings_goal_id old)
             (set_current_amount (\<lambda>c. c -
                (if st_transaction_type old = ''deposit'' then st_amount old else - st_amount old)))
             (savings_goals db) of
        Inl e \<Rightarrow> Inl e
      | Inr gs \<Rightarrow> Inr (db\<lparr>savings_goals := gs\<rparr>))"
| "update_savings_goal_amount s TG_UPDATE r db = Inr db"

text \<open>\<^verbatim>\<open>FOR EACH ROW EXECUTE FUNCTION\<close>: the function runs once for every row, in order.\<close>

fun for_each_row :: "('r \<Rightarrow> database \<Rightarrow> error + database) \<Rightarrow> 'r list \<Rightarrow> database \<Rightarrow> error + database" where
  "for_each_row f [] db = Inr db"
| "for_each_row f (r # rs) db =
     (case f r db of Inl e \<Rightarrow> Inl e | Inr db' \<Rightarrow> for_each_row f rs db')"

text \<open>
  \<^verbatim>\<open>INSERT INTO savings_transactions\<close> of one row: the column type, the insert policy,
  the check on \<^verbatim>\<open>transaction_type\<close>, the primary key and the foreign key, then the
  \<^verbatim>\<open>AFTER INSERT\<close> trigger \<^verbatim>\<open>update_savings_goal_on_transaction\<close>. An error anywhere
  aborts the statement: no database is returned.
\<close>

definition insert_savings_transaction :: "session \<Rightarrow> savings_transaction \<Rightarrow> database \<Rightarrow> error + database" where
  "insert_savings_transaction s new db =
     (if \<not> decimal_15_2 (st_amount new) then Inl NumericOverflow
      else case insert_row savings_transactions_policies db s new (savings_transactions db) of
        Inl e \<Rightarrow> Inl e
      | Inr ts \<Rightarrow>
          if st_transaction_type new \<noteq> ''deposit'' \<and> st_transaction_type new \<noteq> ''withdrawal''
          then Inl CheckViolation
          else if list_ex (\<lambda>t. st_id t = st_id new) (savings_transactions db)
          then Inl UniqueViolation
          else if \<not> list_ex (\<lambda>g. sg_id g = st_savings_goal_id new) (savings_goals db)
          then Inl ForeignKeyViolation
          else update_savings_goal_amount s TG_INSERT new (db\<lparr>savings_transactions := ts\<rparr>))"

text \<open>
  \<^verbatim>\<open>DELETE FROM savings_transactions WHERE ...\<close>: the target rows are removed and the
  \<^verbatim>\<open>AFTER DELETE\<close> trigger runs for each of them; \<open>fired_on_delete_transactions\<close> are
  the \<^verbatim>\<open>OLD\<close> rows the trigger function is called with.
\<close>

definition fired_on_delete_transactions :: "session \<Rightarrow> (savings_transaction \<Rightarrow> bool) \<Rightarrow> database \<Rightarrow> savings_transaction list" where
  "fired_on_delete_transactions s wh db =
     target_rows savings_transactions_policies DELETE db s wh (savings_transactions db)"

definition delete_savings_transactions :: "session \<Rightarrow> (savings_transaction \<Rightarrow> bool) \<Rightarrow> database \<Rightarrow> error + database" where
  "delete_savings_transactions s wh db =
     for_each_row (update_savings_goal_amount s TG_DELETE)
       (fired_on_delete_transactions s wh db)
       (db\<lparr>savings_transactions :=
             delete_rows savings_transactions_policies db s wh (savings_transactions db)\<rparr>)"

text \<open>
  \<^verbatim>\<open>UPDATE savings_transactions SET ... WHERE ...\<close>: the trigger is declared
  \<^verbatim>\<open>AFTER INSERT OR DELETE\<close>, so no trigger runs.
\<close>

definition savings_transaction_constraints :: "database \<Rightarrow> savings_transaction option \<Rightarrow> savings_transaction \<Rightarrow> error + savings_transaction" where
  "savings_transaction_constraints db old t =
     (if \<not> decimal_15_2 (st_amount t) then Inl NumericOverflow
      else if st_transaction_type t \<noteq> ''deposit'' \<and> st_transaction_type t \<noteq> ''withdrawal''
      then Inl CheckViolation
      else if map_option st_id old \<noteq> Some (st_id t) \<and>
              list_ex (\<lambda>x. st_id x = st_id t) (savings_transactions db)
      then Inl UniqueViolation
      else if \<not> list_ex (\<lambda>g. sg_id g = st_savings_goal_id t) (savings_goals db)
      then Inl ForeignKeyViolation
      else Inr t)"

definition update_savings_transactions :: "session \<Rightarrow> (savings_transaction \<Rightarrow> bool) \<Rightarrow> (savings_transaction \<Rightarrow> savings_transaction) \<Rightarrow> database \<Rightarrow> error + database" where
  "update_savings_transactions s wh set_cols db =
     (case update_rows savings_transactions_policies db s wh
             (\<lambda>t. savings_transaction_constraints db (Some t) (set_cols t))
             (savings_transactions db) of
        Inl e \<Rightarrow> Inl e
      | Inr ts \<Rightarrow> Inr (db\<lparr>savings_transactions := ts\<rparr>))"

text \<open>
  A statement on \<^verbatim>\<open>savings_transactions\<close> that inserts or deletes. A statement that
  fails is rolled back: the database is as before.
\<close>

datatype transaction_statement =
  Insert_transaction session savings_transaction
  | Delete_transactions session "savings_transaction \<Rightarrow> bool"

fun execute :: "transaction_statement \<Rightarrow> database \<Rightarrow> error + database" where
  "execute (Insert_transaction s new) db = insert_savings_transaction s new db"
| "execute (Delete_transactions s wh) db = delete_savings_transactions s wh db"

definition commit :: "transaction_statement \<Rightarrow> database \<Rightarrow> database" where
  "commit stmt db = (case execute stmt db of Inl e \<Rightarrow> db | Inr db' \<Rightarrow> db')"

fun run :: "transaction_statement list \<Rightarrow> database \<Rightarrow> database" where
  "run [] db = db"
| "run (stmt # stmts) db = run stmts (commit stmt db)"

text \<open>
  The balance as the specification words it: the sum of the amounts of the deposits of
  a goal minus the sum of the amounts of its withdrawals.
\<close>

definition deposits_minus_withdrawals :: "savings_transaction list \<Rightarrow> uuid \<Rightarrow> int" where
  "deposits_minus_withdrawals ts gid =
     sum_list (map st_amount
       (filter (\<lambda>t. st_savings_goal_id t = gid \<and> st_transaction_type t = ''deposit'') ts))
     - sum_list (map st_amount
       (filter (\<lambda>t. st_savings_goal_id t = gid \<and> st_transaction_type t = ''withdrawal'') ts))"

definition balance_invariant :: "database \<Rightarrow> bool" where
  "balance_invariant db =
     list_all (\<lambda>g. sg_current_amount g =
                     deposits_minus_withdrawals (savings_transactions db) (sg_id g))
       (savings_goals db)"


section \<open>Savings goals\<close>

text \<open>
  The constraints of a \<^verbatim>\<open>savings_goals\<close> row written in place of \<open>old\<close> (or inserted,
  when there is no old row): both \<^verbatim>\<open>DECIMAL(15,2)\<close> columns, the check on
  \<^verbatim>\<open>goal_type\<close>, the primary key and the foreign key to the identity.
\<close>

definition savings_goal_constraints :: "database \<Rightarrow> savings_goal option \<Rightarrow> savings_goal \<Rightarrow> error + savings_goal" where
  "savings_goal_constraints db old g =
     (if \<not> decimal_15_2 (sg_target_amount g) \<or> \<not> decimal_15_2 (sg_current_amount g)
      then Inl NumericOverflow
      else if sg_goal_type g \<notin> set [''vacation'', ''car_service'', ''tech_stocks'', ''emergency'', ''other'']
      then Inl CheckViolation
      else if map_option sg_id old \<noteq> Some (sg_id g) \<and>
              list_ex (\<lambda>x. sg_id x = sg_id g) (savings_goals db)
      then Inl UniqueViolation
      else if \<not> list_ex (\<lambda>u. au_id u = sg_user_id g) (auth_users db)
      then Inl ForeignKeyViolation
      else Inr g)"

text \<open>
  \<^verbatim>\<open>INSERT INTO savings_goals\<close> of one row. The values are brought to the column
  types first, so a value outside \<^verbatim>\<open>DECIMAL(15,2)\<close> fails the statement before the
  insert policy is asked.
\<close>

definition insert_savings_goal :: "session \<Rightarrow> savings_goal \<Rightarrow> database \<Rightarrow> error + database" where
  "insert_savings_goal s new db =
     (if \<not> decimal_15_2 (sg_target_amount new) \<or> \<not> decimal_15_2 (sg_current_amount new)
      then Inl NumericOverflow
      else case insert_row savings_goals_policies db s new (savings_goals db) of
        Inl e \<Rightarrow> Inl e
      | Inr gs \<Rightarrow>
          (case savings_goal_constraints db None new of
             Inl e \<Rightarrow> Inl e
           | Inr g \<Rightarrow> Inr (db\<lparr>savings_goals := gs\<rparr>)))"

text \<open>
  The \<^verbatim>\<open>SET\<close> clause of an update sent by the client, the \<^verbatim>\<open>Update\<close> type of
  \<^verbatim>\<open>types.ts\<close>: a constant for each column it assigns, none for the others.
\<close>

record savings_goal_update =
  upd_sg_id :: "uuid option"
  upd_sg_user_id :: "uuid option"
  upd_sg_name :: "string option"
  upd_sg_target_amount :: "int option"
  upd_sg_current_amount :: "int option"
  upd_sg_currency :: "currency_type option"
  upd_sg_target_date :: "string option option"
  upd_sg_goal_type :: "string option"
  upd_sg_description :: "string option option"
  upd_sg_is_active :: "bool option"

definition no_goal_update :: savings_goal_update where
  "no_goal_update = \<lparr>upd_sg_id = None, upd_sg_user_id = None, upd_sg_name = None,
     upd_sg_target_amount = None, upd_sg_current_amount = None, upd_sg_currency = None,
     upd_sg_target_date = None, upd_sg_goal_type = None, upd_sg_description = None,
     upd_sg_is_active = None\<rparr>"

definition apply_goal_update :: "savings_goal_update \<Rightarrow> savings_goal \<Rightarrow> savings_goal" where
  "apply_goal_update u g =
     \<lparr>sg_id = (case upd_sg_id u of None \<Rightarrow> sg_id g | Some v \<Rightarrow> v),
      sg_user_id = (case upd_sg_user_id u of None \<Rightarrow> sg_user_id g | Some v \<Rightarrow> v),
      sg_name = (case upd_sg_name u of None \<Rightarrow> sg_name g | Some v \<Rightarrow> v),
      sg_target_amount = (case upd_sg_target_amount u of None \<Rightarrow> sg_target_amount g | Some v \<Rightarrow> v),
      sg_current_amount = (case upd_sg_current_amount u of None \<Rightarrow> sg_current_amount g | Some v \<Rightarrow> v),
      sg_currency = (case upd_sg_currency u of None \<Rightarrow> sg_currency g | Some v \<Rightarrow> v),
      sg_target_date = (case upd_sg_target_date u of None \<Rightarrow> sg_target_date g | Some v \<Rightarrow> v),
      sg_goal_type = (case upd_sg_goal_type u of None \<Rightarrow> sg_goal_type g | Some v \<Rightarrow> v),
      sg_description = (case upd_sg_description u of None \<Rightarrow> sg_description g | Some v \<Rightarrow> v),
      sg_is_active = (case upd_sg_is_active u of None \<Rightarrow> sg_is_active g | Some v \<Rightarrow> v)\<rparr>"

definition goal_update_fits :: "savings_goal_update \<Rightarrow> bool" where
  "goal_update_fits u =
     ((case upd_sg_target_amount u of None \<Rightarrow> True | Some v \<Rightarrow> decimal_15_2 v) \<and>
      (case upd_sg_current_amount u of None \<Rightarrow> True | Some v \<Rightarrow> decimal_15_2 v))"

text \<open>
  \<^verbatim>\<open>UPDATE savings_goals SET ... WHERE ...\<close>. The constants are brought to the column
  types when the statement is prepared: one outside \<^verbatim>\<open>DECIMAL(15,2)\<close> fails the
  statement whether or not a row is reached. The other constraints are checked on each
  row written.
\<close>

definition update_savings_goals :: "session \<Rightarrow> (savings_goal \<Rightarrow> bool) \<Rightarrow> savings_goal_update \<Rightarrow> database \<Rightarrow> error + database" where
  "update_savings_goals s wh u db =
     (if \<not> goal_update_fits u then Inl NumericOverflow
      else case update_rows savings_goals_policies db s wh
             (\<lambda>g. savings_goal_constraints db (Some g) (apply_goal_update u g))
             (savings_goals db) of
        Inl e \<Rightarrow> Inl e
      | Inr gs \<Rightarrow> Inr (db\<lparr>savings_goals := gs\<rparr>))"

text \<open>
  \<^verbatim>\<open>DELETE FROM savings_goals WHERE ...\<close>. \<^verbatim>\<open>savings_transactions.savings_goal_id\<close>
  is declared \<^verbatim>\<open>REFERENCES public.savings_goals(id) ON DELETE CASCADE\<close>: the transactions
  of a deleted goal are deleted with it, whatever the policies of their table say, and
  the \<^verbatim>\<open>AFTER DELETE\<close> trigger of \<^verbatim>\<open>savings_transactions\<close> runs for each of them, after
  the goal row is gone. \<open>fired_on_delete_goals\<close> are the \<^verbatim>\<open>OLD\<close> rows the trigger
  function is called with.
\<close>

definition fired_on_delete_goals :: "session \<Rightarrow> (savings_goal \<Rightarrow> bool) \<Rightarrow> database \<Rightarrow> savings_transaction list" where
  "fired_on_delete_goals s wh db =
     filter (\<lambda>t. list_ex (\<lambda>g. sg_id g = st_savings_goal_id t)
                    (target_rows savings_goals_policies DELETE db s wh (savings_goals db)))
       (savings_transactions db)"

definition delete_savings_goals :: "session \<Rightarrow> (savings_goal \<Rightarrow> bool) \<Rightarrow> database \<Rightarrow> error + database" where
  "delete_savings_goals s wh db =
     for_each_row (update_savings_goal_amount s TG_DELETE)
       (fired_on_delete_goals s wh db)
       (db\<lparr>savings_goals := delete_rows savings_goals_policies db s wh (savings_goals db),
           savings_transactions :=
             filter (\<lambda>t. \<not> list_ex (\<lambda>g. sg_id g = st_savings_goal_id t)
                    (target_rows savings_goals_policies DELETE db s wh (savings_goals db)))
               (savings_transactions db)\<rparr>)"

subsection \<open>The goal form of the savings page\<close>

text \<open>
  \<^verbatim>\<open>handleGoalSubmit\<close>. The form holds text; \<^verbatim>\<open>parseFloat\<close> and the rounding of the
  column are the parameter \<open>parse\<close>. An empty name or amount ends with the validation
  message and no statement. \<^verbatim>\<open>goalData\<close> has the columns \<^verbatim>\<open>user_id\<close>, \<^verbatim>\<open>name\<close>,
  \<^verbatim>\<open>target_amount\<close>, \<^verbatim>\<open>currency\<close>, \<^verbatim>\<open>target_date\<close>, \<^verbatim>\<open>goal_type\<close> and
  \<^verbatim>\<open>description\<close>; an update leaves the other columns as they are and an insert
  takes their defaults (\<^verbatim>\<open>current_amount\<close> 0, \<^verbatim>\<open>is_active\<close> true, a generated id).
  The statement runs in the session of the signed-in user \<^verbatim>\<open>user\<close>.
\<close>

record goal_form =
  gf_name :: string
  gf_target_amount :: string
  gf_currency :: currency_type
  gf_target_date :: string
  gf_goal_type :: string
  gf_description :: string

datatype submit_outcome = Validation_error | Save_failed error | Saved database

definition goalData :: "(string \<Rightarrow> int) \<Rightarrow> uuid \<Rightarrow> goal_form \<Rightarrow> savings_goal_update" where
  "goalData parse user_id form =
     \<lparr>upd_sg_id = None,
      upd_sg_user_id = Some user_id,
      upd_sg_name = Some (gf_name form),
      upd_sg_target_amount = Some (parse (gf_target_amount form)),
      upd_sg_current_amount = None,
      upd_sg_currency = Some (gf_currency form),
      upd_sg_target_date =
        Some (if gf_target_date form = [] then None else Some (gf_target_date form)),
      upd_sg_goal_type = Some (gf_goal_type form),
      upd_sg_description = Some (Some (gf_description form)),
      upd_sg_is_active = None\<rparr>"

definition handleGoalSubmit :: "(string \<Rightarrow> int) \<Rightarrow> uuid \<Rightarrow> uuid \<Rightarrow> savings_goal option \<Rightarrow> goal_form \<Rightarrow> database \<Rightarrow> submit_outcome" where
  "handleGoalSubmit parse user generated_id editingGoal form db =
     (if gf_name form = [] \<or> gf_target_amount form = [] then Validation_error
      else case
        (case editingGoal of
           Some eg \<Rightarrow>
             update_savings_goals (Rls (Some user)) (\<lambda>g. sg_id g = sg_id eg)
               (goalData parse user form) db
         | None \<Rightarrow>
             insert_savings_goal (Rls (Some user))
               (apply_goal_update (goalData parse user form)
                  \<lparr>sg_id = generated_id, sg_user_id = user, sg_name = [], sg_target_amount = 0,
                   sg_current_amount = 0, sg_currency = USD, sg_target_date = None,
                   sg_goal_type = [], sg_description = None, sg_is_active = True\<rparr>) db)
      of Inl e \<Rightarrow> Save_failed e | Inr db' \<Rightarrow> Saved db')"

section \<open>Profiles and provisioning\<close>

definition profile_constraints :: "database \<Rightarrow> profile option \<Rightarrow> profile \<Rightarrow> error + profile" where
  "profile_constraints db old p =
     (if pr_role p \<noteq> ''admin'' \<and> pr_role p \<noteq> ''user'' then Inl CheckViolation
      else if map_option pr_id old \<noteq> Some (pr_id p) \<and>
              list_ex (\<lambda>x. pr_id x = pr_id p) (profiles db)
      then Inl UniqueViolation
      else if map_option pr_user_id old \<noteq> Some (pr_user_id p) \<and>
              list_ex (\<lambda>x. pr_user_id x = pr_user_id p) (profiles db)
      then Inl UniqueViolation
      else if \<not> list_ex (\<lambda>u. au_id u = pr_user_id p) (auth_users db)
      then Inl ForeignKeyViolation
      else Inr p)"

definition insert_profile :: "session \<Rightarrow> profile \<Rightarrow> database \<Rightarrow> error + database" where
  "insert_profile s new db =
     (if refused s Profiles profiles_policies [INSERT] then Inl InfiniteRecursion
      else case insert_row profiles_policies db s new (profiles db) of
        Inl e \<Rightarrow> Inl e
      | Inr ps \<Rightarrow>
          (case profile_constraints db None new of
             Inl e \<Rightarrow> Inl e
           | Inr p \<Rightarrow> Inr (db\<lparr>profiles := ps\<rparr>)))"

text \<open>
  \<^verbatim>\<open>UPDATE profiles SET ...\<close> with the constants of the \<^verbatim>\<open>Update\<close> type of
  \<^verbatim>\<open>types.ts\<close>, with a \<^verbatim>\<open>WHERE\<close> clause or without one. With a \<^verbatim>\<open>WHERE\<close> clause
  the statement reads the rows, so the select policies are added to it as well.
\<close>

record profile_update =
  upd_pr_id :: "uuid option"
  upd_pr_user_id :: "uuid option"
  upd_pr_full_name :: "string option"
  upd_pr_role :: "string option"

definition no_profile_update :: profile_update where
  "no_profile_update = \<lparr>upd_pr_id = None, upd_pr_user_id = None, upd_pr_full_name = None,
     upd_pr_role = None\<rparr>"

definition apply_profile_update :: "profile_update \<Rightarrow> profile \<Rightarrow> profile" where
  "apply_profile_update u p =
     \<lparr>pr_id = (case upd_pr_id u of None \<Rightarrow> pr_id p | Some v \<Rightarrow> v),
      pr_user_id = (case upd_pr_user_id u of None \<Rightarrow> pr_user_id p | Some v \<Rightarrow> v),
      pr_full_name = (case upd_pr_full_name u of None \<Rightarrow> pr_full_name p | Some v \<Rightarrow> v),
      pr_role = (case upd_pr_role u of None \<Rightarrow> pr_role p | Some v \<Rightarrow> v)\<rparr>"

definition update_profiles :: "session \<Rightarrow> (profile \<Rightarrow> bool) option \<Rightarrow> profile_update \<Rightarrow> database \<Rightarrow> error + database" where
  "update_profiles s wh u db =
     (case wh of
        Some w \<Rightarrow>
          if refused s Profiles profiles_policies [SELECT, UPDATE] then Inl InfiniteRecursion
          else (case update_rows profiles_policies db s w
                       (\<lambda>p. profile_constraints db (Some p) (apply_profile_update u p))
                       (profiles db) of
                  Inl e \<Rightarrow> Inl e
                | Inr ps \<Rightarrow> Inr (db\<lparr>profiles := ps\<rparr>))
      | None \<Rightarrow>
          if refused s Profiles profiles_policies [UPDATE] then Inl InfiniteRecursion
          else (case update_all_rows profiles_policies db s
                       (\<lambda>p. profile_constraints db (Some p) (apply_profile_update u p))
                       (profiles db) of
                  Inl e \<Rightarrow> Inl e
                | Inr ps \<Rightarrow> Inr (db\<lparr>profiles := ps\<rparr>)))"

text \<open>
  The trigger function \<^verbatim>\<open>handle_new_user\<close>. It is \<^verbatim>\<open>SECURITY DEFINER\<close>: its insert
  runs as the owner of the function and of the table, outside the policies. The id of
  the profile is the generated default. \<^verbatim>\<open>raw_user_meta_data->>'full_name'\<close> is NULL
  when the key is absent or holds a JSON null, which the list of pairs leaves out.
\<close>

definition handle_new_user :: "auth_user \<Rightarrow> uuid \<Rightarrow> database \<Rightarrow> error + database" where
  "handle_new_user NEW generated_id db =
     insert_profile BypassRls
       \<lparr>pr_id = generated_id,
        pr_user_id = au_id NEW,
        pr_full_name = (case map_of (au_raw_user_meta_data NEW) ''full_name'' of
                          Some n \<Rightarrow> n | None \<Rightarrow> au_email NEW),
        pr_role = (if au_email NEW = ''admin@fms.com'' then ''admin'' else ''user'')\<rparr>
       db"

text \<open>
  Modelled from the spec: the identity creation event, which the platform performs and
  the migration only subscribes to with \<^verbatim>\<open>on_auth_user_created AFTER INSERT ON auth.users\<close>.
  The identity row is inserted under its primary key, then the trigger runs in the
  same statement; an error of the trigger fails the creation.
\<close>

definition create_identity :: "auth_user \<Rightarrow> uuid \<Rightarrow> database \<Rightarrow> error + database" where
  "create_identity NEW generated_id db =
     (if list_ex (\<lambda>u. au_id u = au_id NEW) (auth_users db) then Inl UniqueViolation
      else handle_new_user NEW generated_id (db\<lparr>auth_users := auth_users db @ [NEW]\<rparr>))"

text \<open>
  \<^verbatim>\<open>createUser\<close> of the admin page: the identity it asks the platform to create, with
  \<^verbatim>\<open>user_metadata\<close> holding the full name and the role of the form.
\<close>

record new_user_form =
  nf_email :: string
  nf_password :: string
  nf_fullName :: string
  nf_role :: string

definition createUser :: "new_user_form \<Rightarrow> uuid \<Rightarrow> auth_user" where
  "createUser form identity_id =
     \<lparr>au_id = identity_id,
      au_email = nf_email form,
      au_raw_user_meta_data = [(''full_name'', nf_fullName form), (''role'', nf_role form)]\<rparr>"

section \<open>Auxiliary notions of the proofs\<close>





text \<open>The profile row that \<^verbatim>\<open>handle_new_user\<close> inserts.\<close>

definition provisioned_profile :: "auth_user \<Rightarrow> uuid \<Rightarrow> profile" where
  "provisioned_profile NEW generated_id =
     \<lparr>pr_id = generated_id,
      pr_user_id = au_id NEW,
      pr_full_name = (case map_of (au_raw_user_meta_data NEW) ''full_name'' of
                        Some n \<Rightarrow> n | None \<Rightarrow> au_email NEW),
      pr_role = (if au_email NEW = ''admin@fms.com'' then ''admin'' else ''user'')\<rparr>"

section \<open>Example data\<close>

definition example_goal :: savings_goal where
  "example_goal = \<lparr>sg_id = 1, sg_user_id = 10, sg_name = ''Car'', sg_target_amount = 500000,
     sg_current_amount = 0, sg_currency = USD, sg_target_date = None,
     sg_goal_type = ''car_service'', sg_description = None, sg_is_active = True\<rparr>"

definition example_profiles :: "profile list" where
  "example_profiles =
     [\<lparr>pr_id = 101, pr_user_id = 1, pr_full_name = ''Admin'', pr_role = ''admin''\<rparr>,
      \<lparr>pr_id = 110, pr_user_id = 10, pr_full_name = ''Ama'', pr_role = ''user''\<rparr>,
      \<lparr>pr_id = 120, pr_user_id = 20, pr_full_name = ''kofi@example.com'', pr_role = ''user''\<rparr>]"

definition example_users :: "auth_user list" where
  "example_users =
     [\<lparr>au_id = 1, au_email = ''admin@fms.com'', au_raw_user_meta_data = [(''full_name'', ''Admin'')]\<rparr>,
      \<lparr>au_id = 10, au_email = ''ama@example.com'', au_raw_user_meta_data = [(''full_name'', ''Ama'')]\<rparr>,
      \<lparr>au_id = 20, au_email = ''kofi@example.com'', au_raw_user_meta_data = []\<rparr>]"

definition example_income :: income_record where
  "example_income = \<lparr>ir_id = 1, ir_user_id = 10, ir_quarter = Q1, ir_year = 2025,
     ir_amount = 250000, ir_currency = USD, ir_source = Some ''Salary'', ir_description = None\<rparr>"

definition example_category :: expense_category where
  "example_category = \<lparr>ec_id = 1, ec_name = ''Housing'',
     ec_description = Some ''Rent, utilities, maintenance''\<rparr>"

definition example_expense :: expense_record where
  "example_expense = \<lparr>er_id = 1, er_user_id = 10, er_category_id = 1, er_quarter = Q1,
     er_year = 2025, er_amount = 80000, er_currency = USD, er_description = None,
     er_expense_date = ''2025-07-22''\<rparr>"

definition example_rate :: currency_rate where
  "example_rate = \<lparr>cr_id = 1, cr_from_currency = USD, cr_to_currency = GHS,
     cr_rate = 12000000, cr_date = ''2025-07-22''\<rparr>"

definition example_db :: database where
  "example_db = \<lparr>auth_users = example_users, profiles = example_profiles,
     income_records = [example_income], expense_categories = [example_category],
     expense_records = [example_expense], savings_goals = [example_goal],
     savings_transactions = [], currency_rates = [example_rate]\<rparr>"

definition example_deposit :: savings_transaction where
  "example_deposit = \<lparr>st_id = 1, st_savings_goal_id = 1, st_amount = 10000,
     st_transaction_type = ''deposit'', st_description = None, st_transaction_date = ''2025-07-22''\<rparr>"

definition example_withdrawal :: savings_transaction where
  "example_withdrawal = \<lparr>st_id = 2, st_savings_goal_id = 1, st_amount = 3000,
     st_transaction_type = ''withdrawal'', st_description = None, st_transaction_date = ''2025-07-23''\<rparr>"


definition example_db_100 :: database where
  "example_db_100 = example_db\<lparr>savings_goals := [example_goal\<lparr>sg_current_amount := 10000\<rparr>],
                savings_transactions := [example_deposit]\<rparr>"


definition example_new_user :: auth_user where
  "example_new_user = \<lparr>au_id = 30, au_email = ''esi@example.com'',
     au_raw_user_meta_data = [(''role'', ''admin'')]\<rparr>"

definition example_db_provisioned :: database where
  "example_db_provisioned = example_db\<lparr>auth_users := example_users @ [example_new_user],
     profiles := example_profiles @
       [\<lparr>pr_id = 130, pr_user_id = 30, pr_full_name = ''esi@example.com'', pr_role = ''user''\<rparr>]\<rparr>"

definition example_form :: new_user_form where
  "example_form = \<lparr>nf_email = ''yaw@example.com'', nf_password = ''secret'',
     nf_fullName = ''Yaw'', nf_role = ''admin''\<rparr>"

definition example_goal_form :: goal_form where
  "example_goal_form = \<lparr>gf_name = ''Car service'', gf_target_amount = ''6000'',
     gf_currency = USD, gf_target_date = [], gf_goal_type = ''car_service'',
     gf_description = ''Brakes''\<rparr>"

definition example_goal_edited :: savings_goal where
  "example_goal_edited = \<lparr>sg_id = 1, sg_user_id = 10, sg_name = ''Car service'',
     sg_target_amount = 600000, sg_current_amount = 10000, sg_currency = USD,
     sg_target_date = None, sg_goal_type = ''car_service'', sg_description = Some ''Brakes'',
     sg_is_active = True\<rparr>"

definition example_goal_created :: savings_goal where
  "example_goal_created = \<lparr>sg_id = 2, sg_user_id = 10, sg_name = ''Car service'',
     sg_target_amount = 600000, sg_current_amount = 0, sg_currency = USD,
     sg_target_date = None, sg_goal_type = ''car_service'', sg_description = Some ''Brakes'',
     sg_is_active = True\<rparr>"

section \<open>The balance trigger and its invariant\<close>



lemma goal_select_allowed:
  "allowed_select savings_goals_policies db s g =
     (case s of BypassRls \<Rightarrow> True | Rls uid \<Rightarrow> uid = Some (sg_user_id g))"
  by (auto simp: allowed_select_def using_ok_def savings_goals_policies_def split: session.splits)

lemma exists_own_goal_iff:
  "exists_own_goal db uid t =
     (\<exists>g \<in> set (savings_goals db). sg_id g = st_savings_goal_id t \<and> Some (sg_user_id g) = uid)"
  by (auto simp: exists_own_goal_def select_rows_def goal_select_allowed filter_empty_conv)

lemma transaction_insert_allowed:
  "allowed_new savings_transactions_policies INSERT db s t =
     (case s of BypassRls \<Rightarrow> True | Rls uid \<Rightarrow> exists_own_goal db uid t)"
  by (auto simp: allowed_new_def check_ok_def savings_transactions_policies_def split: session.splits)

lemma transaction_select_allowed:
  "allowed_select savings_transactions_policies db s t =
     (case s of BypassRls \<Rightarrow> True | Rls uid \<Rightarrow> exists_own_goal db uid t)"
  by (auto simp: allowed_select_def using_ok_def savings_transactions_policies_def split: session.splits)

lemma transaction_write_denied:
  "c = UPDATE \<or> c = DELETE \<Longrightarrow>
   allowed_existing savings_transactions_policies c db (Rls uid) t = False"
  by (auto simp: allowed_existing_def using_ok_def savings_transactions_policies_def)






lemma dmw_Cons:
  "deposits_minus_withdrawals (t # ts) gid =
     deposits_minus_withdrawals ts gid +
       (if st_savings_goal_id t = gid then
          (if st_transaction_type t = ''deposit'' then st_amount t
           else if st_transaction_type t = ''withdrawal'' then - st_amount t else 0)
        else 0)"
  by (simp add: deposits_minus_withdrawals_def)

lemma distinct_key_eq:
  "distinct (map f xs) \<Longrightarrow> x \<in> set xs \<Longrightarrow> y \<in> set xs \<Longrightarrow> f x = f y \<Longrightarrow> x = y"
  by (meson distinct_map inj_onD)






lemma delete_denied_under_rls:
  "delete_savings_transactions (Rls uid) wh db = Inr db"
  by (simp add: delete_savings_transactions_def fired_on_delete_transactions_def target_rows_def delete_rows_def
      transaction_write_denied)






text \<open>
  Where the sequences start: a goal that no transaction references has the balance 0,
  the default of \<^verbatim>\<open>current_amount\<close> that the goal form leaves in place.
\<close>

lemma new_goal_balanced:
  "\<not> list_ex (\<lambda>t. st_savings_goal_id t = gid) ts \<Longrightarrow> deposits_minus_withdrawals ts gid = 0"
  by (induction ts) (auto simp: dmw_Cons deposits_minus_withdrawals_def)



lemma bypass_allowed:
  "allowed_select ps db BypassRls r" "allowed_existing ps c db BypassRls r"
  "allowed_new ps c db BypassRls r"
  by (simp_all add: allowed_select_def allowed_existing_def allowed_new_def)







section \<open>Ownership isolation\<close>

lemma update_rows_no_target:
  "list_all (\<lambda>r. \<not> (wh r \<and> allowed_existing ps UPDATE db s r)) rows \<Longrightarrow>
   update_rows ps db s wh setc rows = Inr rows"
  by (induction rows) auto

lemma update_rows_keeps_field:
  assumes "\<And>r r'. setc r = Inr r' \<Longrightarrow> f r' = f r"
  shows "update_rows ps db s wh setc rows = Inr rows' \<Longrightarrow> map f rows' = map f rows"
proof (induction rows arbitrary: rows')
  case Nil
  then show ?case by simp
next
  case (Cons r rows)
  then show ?case using assms
    by (auto split: if_splits sum.splits)
qed

lemma income_allowed:
  "allowed_select income_records_policies db (Rls caller) r = (caller = Some (ir_user_id r))"
  "allowed_existing income_records_policies UPDATE db (Rls caller) r = (caller = Some (ir_user_id r))"
  "allowed_existing income_records_policies DELETE db (Rls caller) r = (caller = Some (ir_user_id r))"
  "allowed_new income_records_policies INSERT db (Rls caller) r = (caller = Some (ir_user_id r))"
  "allowed_new income_records_policies UPDATE db (Rls caller) r = (caller = Some (ir_user_id r))"
  by (auto simp: allowed_select_def allowed_existing_def allowed_new_def using_ok_def check_ok_def
      income_records_policies_def)

lemma expense_allowed:
  "allowed_select expense_records_policies db (Rls caller) r = (caller = Some (er_user_id r))"
  "allowed_existing expense_records_policies UPDATE db (Rls caller) r = (caller = Some (er_user_id r))"
  "allowed_existing expense_records_policies DELETE db (Rls caller) r = (caller = Some (er_user_id r))"
  "allowed_new expense_records_policies INSERT db (Rls caller) r = (caller = Some (er_user_id r))"
  "allowed_new expense_records_policies UPDATE db (Rls caller) r = (caller = Some (er_user_id r))"
  by (auto simp: allowed_select_def allowed_existing_def allowed_new_def using_ok_def check_ok_def
      expense_records_policies_def)

lemma goal_allowed:
  "allowed_select savings_goals_policies db (Rls caller) r = (caller = Some (sg_user_id r))"
  "allowed_existing savings_goals_policies UPDATE db (Rls caller) r = (caller = Some (sg_user_id r))"
  "allowed_existing savings_goals_policies DELETE db (Rls caller) r = (caller = Some (sg_user_id r))"
  "allowed_new savings_goals_policies INSERT db (Rls caller) r = (caller = Some (sg_user_id r))"
  "allowed_new savings_goals_policies UPDATE db (Rls caller) r = (caller = Some (sg_user_id r))"
  by (auto simp: allowed_select_def allowed_existing_def allowed_new_def using_ok_def check_ok_def
      savings_goals_policies_def)

lemma income_isolated:
  assumes "A \<noteq> B"
  shows "((\<forall>r. ir_user_id r = A \<longrightarrow>
            \<not> allowed_select income_records_policies db (Rls (Some B)) r \<and>
            \<not> allowed_existing income_records_policies UPDATE db (Rls (Some B)) r \<and>
            \<not> allowed_existing income_records_policies DELETE db (Rls (Some B)) r \<and>
            \<not> allowed_new income_records_policies INSERT db (Rls (Some B)) r) \<and>
         (\<forall>wh. list_all (\<lambda>r. wh r \<longrightarrow> ir_user_id r = A) (income_records db) \<longrightarrow>
            select_rows income_records_policies db (Rls (Some B)) wh (income_records db) = [] \<and>
            target_rows income_records_policies UPDATE db (Rls (Some B)) wh (income_records db) = [] \<and>
            target_rows income_records_policies DELETE db (Rls (Some B)) wh (income_records db) = [] \<and>
            delete_rows income_records_policies db (Rls (Some B)) wh (income_records db) = income_records db))"
  using assms
  by (auto simp: income_allowed select_rows_def target_rows_def delete_rows_def list_all_iff
      filter_empty_conv filter_id_conv)

lemma expense_isolated:
  assumes "A \<noteq> B"
  shows "((\<forall>r. er_user_id r = A \<longrightarrow>
            \<not> allowed_select expense_records_policies db (Rls (Some B)) r \<and>
            \<not> allowed_existing expense_records_policies UPDATE db (Rls (Some B)) r \<and>
            \<not> allowed_existing expense_records_policies DELETE db (Rls (Some B)) r \<and>
            \<not> allowed_new expense_records_policies INSERT db (Rls (Some B)) r) \<and>
         (\<forall>wh. list_all (\<lambda>r. wh r \<longrightarrow> er_user_id r = A) (expense_records db) \<longrightarrow>
            select_rows expense_records_policies db (Rls (Some B)) wh (expense_records db) = [] \<and>
            target_rows expense_records_policies UPDATE db (Rls (Some B)) wh (expense_records db) = [] \<and>
            target_rows expense_records_policies DELETE db (Rls (Some B)) wh (expense_records db) = [] \<and>
            delete_rows expense_records_policies db (Rls (Some B)) wh (expense_records db) = expense_records db))"
  using assms
  by (auto simp: expense_allowed select_rows_def target_rows_def delete_rows_def list_all_iff
      filter_empty_conv filter_id_conv)

lemma goal_isolated:
  assumes "A \<noteq> B"
  shows "((\<forall>r. sg_user_id r = A \<longrightarrow>
            \<not> allowed_select savings_goals_policies db (Rls (Some B)) r \<and>
            \<not> allowed_existing savings_goals_policies UPDATE db (Rls (Some B)) r \<and>
            \<not> allowed_existing savings_goals_policies DELETE db (Rls (Some B)) r \<and>
            \<not> allowed_new savings_goals_policies INSERT db (Rls (Some B)) r \<and>
            insert_savings_goal (Rls (Some B)) r db =
              (if decimal_15_2 (sg_target_amount r) \<and> decimal_15_2 (sg_current_amount r)
               then Inl RlsViolation else Inl NumericOverflow)) \<and>
         (\<forall>wh u. list_all (\<lambda>r. wh r \<longrightarrow> sg_user_id r = A) (savings_goals db) \<longrightarrow>
            select_rows savings_goals_policies db (Rls (Some B)) wh (savings_goals db) = [] \<and>
            update_savings_goals (Rls (Some B)) wh u db =
              (if goal_update_fits u then Inr db else Inl NumericOverflow) \<and>
            delete_savings_goals (Rls (Some B)) wh db = Inr db))"
proof -
  have upd: "update_rows savings_goals_policies db (Rls (Some B)) wh setc rows = Inr rows"
    if "list_all (\<lambda>r. wh r \<longrightarrow> sg_user_id r = A) rows" for wh setc rows
    using that assms by (intro update_rows_no_target) (auto simp: goal_allowed list_all_iff)
  have tgt: "target_rows savings_goals_policies DELETE db (Rls (Some B)) wh (savings_goals db) = []"
    and del: "delete_rows savings_goals_policies db (Rls (Some B)) wh (savings_goals db) = savings_goals db"
    and sel: "select_rows savings_goals_policies db (Rls (Some B)) wh (savings_goals db) = []"
    if "list_all (\<lambda>r. wh r \<longrightarrow> sg_user_id r = A) (savings_goals db)" for wh
    using that assms
    by (auto simp: goal_allowed target_rows_def delete_rows_def select_rows_def list_all_iff
        filter_empty_conv filter_id_conv)
  show ?thesis using assms
    by (auto simp: goal_allowed insert_savings_goal_def insert_row_def update_savings_goals_def
        delete_savings_goals_def fired_on_delete_goals_def upd tgt del sel)
qed

text \<open>
  Claim C3. Let \<open>A\<close> and \<open>B\<close> be different users. For income records, expense records
  and savings goals alike: no row owned by \<open>A\<close> passes the select, update or delete
  policies in the session of \<open>B\<close>, nor the insert check. When the \<^verbatim>\<open>WHERE\<close> clause of \<open>B\<close>
  matches only rows of \<open>A\<close>, as it does when \<open>B\<close> supplies the identifier of a row of
  \<open>A\<close>, the select returns no row, no row is a target of the update or the delete, and
  the delete leaves the table as it is. For the statements on \<^verbatim>\<open>savings_goals\<close>: an
  insert by \<open>B\<close> of a row owned by \<open>A\<close> fails, on the policy when its values fit the column
  types and on the column type before that when they do not; an update by \<open>B\<close> returns
  the database unchanged when its constants fit and fails on the column type when they
  do not; a delete by \<open>B\<close> returns the database unchanged.
\<close>

theorem ownership_isolation:
  assumes "A \<noteq> B"
  shows "((\<forall>r. ir_user_id r = A \<longrightarrow>
            \<not> allowed_select income_records_policies db (Rls (Some B)) r \<and>
            \<not> allowed_existing income_records_policies UPDATE db (Rls (Some B)) r \<and>
            \<not> allowed_existing income_records_policies DELETE db (Rls (Some B)) r \<and>
            \<not> allowed_new income_records_policies INSERT db (Rls (Some B)) r) \<and>
         (\<forall>wh. list_all (\<lambda>r. wh r \<longrightarrow> ir_user_id r = A) (income_records db) \<longrightarrow>
            select_rows income_records_policies db (Rls (Some B)) wh (income_records db) = [] \<and>
            target_rows income_records_policies UPDATE db (Rls (Some B)) wh (income_records db) = [] \<and>
            target_rows income_records_policies DELETE db (Rls (Some B)) wh (income_records db) = [] \<and>
            delete_rows income_records_policies db (Rls (Some B)) wh (income_records db) = income_records db)) \<and>
        ((\<forall>r. er_user_id r = A \<longrightarrow>
            \<not> allowed_select expense_records_policies db (Rls (Some B)) r \<and>
            \<not> allowed_existing expense_records_policies UPDATE db (Rls (Some B)) r \<and>
            \<not> allowed_existing expense_records_policies DELETE db (Rls (Some B)) r \<and>
            \<not> allowed_new expense_records_policies INSERT db (Rls (Some B)) r) \<and>
         (\<forall>wh. list_all (\<lambda>r. wh r \<longrightarrow> er_user_id r = A) (expense_records db) \<longrightarrow>
            select_rows expense_records_policies db (Rls (Some B)) wh (expense_records db) = [] \<and>
            target_rows expense_records_policies UPDATE db (Rls (Some B)) wh (expense_records db) = [] \<and>
            target_rows expense_records_policies DELETE db (Rls (Some B)) wh (expense_records db) = [] \<and>
            delete_rows expense_records_policies db (Rls (Some B)) wh (expense_records db) = expense_records db)) \<and>
        ((\<forall>r. sg_user_id r = A \<longrightarrow>
            \<not> allowed_select savings_goals_policies db (Rls (Some B)) r \<and>
            \<not> allowed_existing savings_goals_policies UPDATE db (Rls (Some B)) r \<and>
            \<not> allowed_existing savings_goals_policies DELETE db (Rls (Some B)) r \<and>
            \<not> allowed_new savings_goals_policies INSERT db (Rls (Some B)) r \<and>
            insert_savings_goal (Rls (Some B)) r db =
              (if decimal_15_2 (sg_target_amount r) \<and> decimal_15_2 (sg_current_amount r)
               then Inl RlsViolation else Inl NumericOverflow)) \<and>
         (\<forall>wh u. list_all (\<lambda>r. wh r \<longrightarrow> sg_user_id r = A) (savings_goals db) \<longrightarrow>
            select_rows savings_goals_policies db (Rls (Some B)) wh (savings_goals db) = [] \<and>
            update_savings_goals (Rls (Some B)) wh u db =
              (if goal_update_fits u then Inr db else Inl NumericOverflow) \<and>
            delete_savings_goals (Rls (Some B)) wh db = Inr db))"
  using income_isolated[OF assms, of db] expense_isolated[OF assms, of db]
    goal_isolated[OF assms, of db]
  by blast

theorem ownership_isolation_witness:
  "(10::uuid) \<noteq> 20 \<and> ir_user_id example_income = 10 \<and> er_user_id example_expense = 10 \<and>
   sg_user_id example_goal = 10 \<and>
   select_rows income_records_policies example_db (Rls (Some 20)) (\<lambda>r. ir_id r = 1)
     (income_records example_db) = [] \<and>
   select_rows income_records_policies example_db (Rls (Some 10)) (\<lambda>r. ir_id r = 1)
     (income_records example_db) = [example_income] \<and>
   delete_rows expense_records_policies example_db (Rls (Some 20)) (\<lambda>r. er_id r = 1)
     (expense_records example_db) = [example_expense] \<and>
   delete_rows expense_records_policies example_db (Rls (Some 10)) (\<lambda>r. er_id r = 1)
     (expense_records example_db) = [] \<and>
   update_savings_goals (Rls (Some 20)) (\<lambda>g. sg_id g = 1)
     (no_goal_update\<lparr>upd_sg_name := Some ''Mine''\<rparr>) example_db = Inr example_db \<and>
   update_savings_goals (Rls (Some 20)) (\<lambda>g. sg_id g = 1)
     (no_goal_update\<lparr>upd_sg_current_amount := Some 1000000000000000\<rparr>) example_db
     = Inl NumericOverflow \<and>
   delete_savings_goals (Rls (Some 20)) (\<lambda>g. sg_id g = 1) example_db = Inr example_db \<and>
   insert_savings_goal (Rls (Some 20)) example_goal example_db = Inl RlsViolation \<and>
   insert_savings_goal (Rls (Some 20)) (example_goal\<lparr>sg_target_amount := 1000000000000000\<rparr>)
     example_db = Inl NumericOverflow"
proof -
  have ne: "(10::uuid) \<noteq> 20" by simp
  have own: "ir_user_id example_income = 10" "er_user_id example_expense = 10"
    "sg_user_id example_goal = 10"
    "sg_user_id (example_goal\<lparr>sg_target_amount := 1000000000000000\<rparr>) = 10"
    by (simp_all add: example_income_def example_expense_def example_goal_def)
  have rows: "list_all (\<lambda>r. ir_id r = 1 \<longrightarrow> ir_user_id r = 10) (income_records example_db)"
    "list_all (\<lambda>r. er_id r = 1 \<longrightarrow> er_user_id r = 10) (expense_records example_db)"
    "list_all (\<lambda>r. sg_id r = 1 \<longrightarrow> sg_user_id r = 10) (savings_goals example_db)"
    by (simp_all add: example_db_def own)
  have mine: "select_rows income_records_policies example_db (Rls (Some 10)) (\<lambda>r. ir_id r = 1)
     (income_records example_db) = [example_income]"
    "delete_rows expense_records_policies example_db (Rls (Some 10)) (\<lambda>r. er_id r = 1)
     (expense_records example_db) = []"
    by (simp_all add: select_rows_def delete_rows_def income_allowed expense_allowed example_db_def
        example_income_def example_expense_def)
  have fits: "goal_update_fits (no_goal_update\<lparr>upd_sg_name := Some ''Mine''\<rparr>)"
    "\<not> goal_update_fits (no_goal_update\<lparr>upd_sg_current_amount := Some 1000000000000000\<rparr>)"
    "decimal_15_2 (sg_target_amount example_goal)" "decimal_15_2 (sg_current_amount example_goal)"
    "\<not> decimal_15_2 (sg_target_amount (example_goal\<lparr>sg_target_amount := 1000000000000000\<rparr>))"
    by (simp_all add: goal_update_fits_def no_goal_update_def decimal_15_2_def example_goal_def)
  note inst = ownership_isolation[OF ne, of example_db]
  from inst[THEN conjunct1, THEN conjunct2, rule_format, OF rows(1)]
  have a: "select_rows income_records_policies example_db (Rls (Some 20))
      (\<lambda>r. ir_id r = 1) (income_records example_db) = []" by (rule conjunct1)
  from inst[THEN conjunct2, THEN conjunct1, THEN conjunct2, rule_format, OF rows(2)]
  have b: "delete_rows expense_records_policies example_db (Rls (Some 20))
      (\<lambda>r. er_id r = 1) (expense_records example_db) = expense_records example_db"
    by (rule conjunct2[THEN conjunct2, THEN conjunct2])
  note goals = inst[THEN conjunct2, THEN conjunct2]
  from goals[THEN conjunct2, rule_format, OF rows(3)]
  have c: "update_savings_goals (Rls (Some 20)) (\<lambda>g. sg_id g = 1) u example_db =
              (if goal_update_fits u then Inr example_db else Inl NumericOverflow)" for u
    by (rule conjunct2[THEN conjunct1])
  from goals[THEN conjunct2, rule_format, OF rows(3)]
  have d: "delete_savings_goals (Rls (Some 20)) (\<lambda>g. sg_id g = 1) example_db
      = Inr example_db" by (rule conjunct2[THEN conjunct2])
  have e: "insert_savings_goal (Rls (Some 20)) r example_db =
              (if decimal_15_2 (sg_target_amount r) \<and> decimal_15_2 (sg_current_amount r)
               then Inl RlsViolation else Inl NumericOverflow)" if "sg_user_id r = 10" for r
    using goals[THEN conjunct1, rule_format, OF that] by (elim conjE)
  show ?thesis
    using ne own mine a b c[of "no_goal_update\<lparr>upd_sg_name := Some ''Mine''\<rparr>"]
      c[of "no_goal_update\<lparr>upd_sg_current_amount := Some 1000000000000000\<rparr>"] d
      e[OF own(3)] e[OF own(4)] fits
    by (simp add: example_db_def)
qed

lemma own_goal_iff_owner:
  assumes "distinct (map sg_id (savings_goals db))" and "G \<in> set (savings_goals db)"
    and "sg_id G = st_savings_goal_id T"
  shows "exists_own_goal db caller T = (caller = Some (sg_user_id G))"
proof
  assume "exists_own_goal db caller T"
  then obtain g where g: "g \<in> set (savings_goals db)" "sg_id g = st_savings_goal_id T"
      "Some (sg_user_id g) = caller"
    by (auto simp: exists_own_goal_iff)
  with assms have "g = G" by (auto intro: distinct_key_eq[of sg_id "savings_goals db"])
  with g show "caller = Some (sg_user_id G)" by simp
next
  assume "caller = Some (sg_user_id G)"
  with assms show "exists_own_goal db caller T" by (auto simp: exists_own_goal_iff)
qed

text \<open>
  Claim C4. A savings transaction \<open>T\<close> carries no owner; for the goal \<open>G\<close> it
  references, the select policy and the insert check pass in a caller's session
  exactly when the caller is the owner of \<open>G\<close>. A select returns \<open>T\<close> only to that
  owner, and an insert of \<open>T\<close> by any other caller fails.
\<close>

theorem transaction_ownership_through_goal:
  assumes "distinct (map sg_id (savings_goals db))" and "G \<in> set (savings_goals db)"
    and "sg_id G = st_savings_goal_id T"
  shows "allowed_select savings_transactions_policies db (Rls caller) T
           = (caller = Some (sg_user_id G)) \<and>
         allowed_new savings_transactions_policies INSERT db (Rls caller) T
           = (caller = Some (sg_user_id G)) \<and>
         (T \<in> set (select_rows savings_transactions_policies db (Rls caller) wh
                     (savings_transactions db))
           = (T \<in> set (savings_transactions db) \<and> wh T \<and> caller = Some (sg_user_id G))) \<and>
         (caller \<noteq> Some (sg_user_id G) \<longrightarrow>
            (\<exists>e. insert_savings_transaction (Rls caller) T db = Inl e)) \<and>
         (caller = Some (sg_user_id G) \<longrightarrow>
            insert_row savings_transactions_policies db (Rls caller) T (savings_transactions db)
              = Inr (savings_transactions db @ [T]))"
  using own_goal_iff_owner[OF assms, of caller]
  by (auto simp: transaction_select_allowed transaction_insert_allowed select_rows_def
      insert_savings_transaction_def insert_row_def)

theorem transaction_ownership_through_goal_witness:
  "distinct (map sg_id (savings_goals example_db_100)) \<and>
   example_goal\<lparr>sg_current_amount := 10000\<rparr> \<in> set (savings_goals example_db_100) \<and>
   sg_id (example_goal\<lparr>sg_current_amount := 10000\<rparr>) = st_savings_goal_id example_deposit \<and>
   select_rows savings_transactions_policies example_db_100 (Rls (Some 10)) (\<lambda>t. True)
     (savings_transactions example_db_100) = [example_deposit] \<and>
   select_rows savings_transactions_policies example_db_100 (Rls (Some 20)) (\<lambda>t. True)
     (savings_transactions example_db_100) = [] \<and>
   allowed_new savings_transactions_policies INSERT example_db_100 (Rls (Some 10)) example_withdrawal \<and>
   \<not> allowed_new savings_transactions_policies INSERT example_db_100 (Rls (Some 20)) example_withdrawal \<and>
   \<not> allowed_new savings_transactions_policies INSERT example_db_100 (Rls None) example_withdrawal"
proof -
  let ?G = "example_goal\<lparr>sg_current_amount := 10000\<rparr>"
  have h1: "distinct (map sg_id (savings_goals example_db_100))"
    by (simp add: example_db_100_def)
  have h2: "?G \<in> set (savings_goals example_db_100)"
    by (simp add: example_db_100_def)
  have h3: "sg_id ?G = st_savings_goal_id example_deposit"
    and h4: "sg_id ?G = st_savings_goal_id example_withdrawal"
    by (simp_all add: example_goal_def example_deposit_def example_withdrawal_def)
  have own: "sg_user_id ?G = 10" by (simp add: example_goal_def)
  have sel: "select_rows savings_transactions_policies example_db_100 (Rls c) (\<lambda>t. True)
     (savings_transactions example_db_100) =
     (if allowed_select savings_transactions_policies example_db_100 (Rls c) example_deposit
      then [example_deposit] else [])" for c
    by (simp add: select_rows_def example_db_100_def)
  from transaction_ownership_through_goal[OF h1 h2 h3, of "Some 10"]
    transaction_ownership_through_goal[OF h1 h2 h3, of "Some 20"]
    transaction_ownership_through_goal[OF h1 h2 h4, of "Some 10"]
    transaction_ownership_through_goal[OF h1 h2 h4, of "Some 20"]
    transaction_ownership_through_goal[OF h1 h2 h4, of None]
    h1 h2 h3 show ?thesis
    by (simp add: sel own)
qed

lemma transaction_update_denied_under_rls:
  "update_savings_transactions (Rls caller) wh set_cols db = Inr db"
proof -
  have "update_rows savings_transactions_policies db (Rls caller) wh setc rows = Inr rows"
    for setc rows
    by (intro update_rows_no_target) (simp add: transaction_write_denied list_all_iff)
  then show ?thesis by (simp add: update_savings_transactions_def)
qed

text \<open>
  Claim C7, amended. In a session subject to the policies no row of
  \<^verbatim>\<open>savings_transactions\<close> passes for \<^verbatim>\<open>UPDATE\<close> or \<^verbatim>\<open>DELETE\<close>, whoever owns the
  goal: either statement changes nothing and succeeds, and the delete calls the trigger
  function for no row. The delete branch of the trigger function does run for a user,
  though: when the owner deletes a goal, \<^verbatim>\<open>ON DELETE CASCADE\<close> deletes its
  transactions and the trigger function is called for each of them.
\<close>

theorem no_user_write_on_transactions:
  assumes "G \<in> set (savings_goals db)" and "wh G" and "T \<in> set (savings_transactions db)"
    and "st_savings_goal_id T = sg_id G"
  shows "\<not> allowed_existing savings_transactions_policies UPDATE db (Rls caller) t \<and>
         \<not> allowed_existing savings_transactions_policies DELETE db (Rls caller) t \<and>
         update_savings_transactions (Rls caller) wh_t set_cols db = Inr db \<and>
         delete_savings_transactions (Rls caller) wh_t db = Inr db \<and>
         fired_on_delete_transactions (Rls caller) wh_t db = [] \<and>
         T \<in> set (fired_on_delete_goals (Rls (Some (sg_user_id G))) wh db)"
  using assms
  by (auto simp: transaction_write_denied transaction_update_denied_under_rls
      delete_denied_under_rls fired_on_delete_transactions_def fired_on_delete_goals_def
      target_rows_def goal_allowed list_ex_iff)

text \<open>
  The claim as stated fails: the user 10, whose profile has the role user, deletes the
  goal 1, and the trigger function is called with \<^verbatim>\<open>TG_OP = 'DELETE'\<close> for the deposit
  of that goal.
\<close>

theorem user_goal_delete_fires_trigger:
  "list_ex (\<lambda>p. pr_user_id p = 10 \<and> pr_role p = ''user'') (profiles example_db_100) \<and>
   fired_on_delete_goals (Rls (Some 10)) (\<lambda>g. sg_id g = 1) example_db_100 = [example_deposit] \<and>
   delete_savings_goals (Rls (Some 10)) (\<lambda>g. sg_id g = 1) example_db_100 =
     Inr (example_db_100\<lparr>savings_goals := [], savings_transactions := []\<rparr>)"
  by (simp add: example_db_100_def example_db_def example_profiles_def example_goal_def
      example_deposit_def delete_savings_goals_def fired_on_delete_goals_def target_rows_def
      delete_rows_def goal_allowed)

theorem no_user_write_on_transactions_witness:
  "example_goal\<lparr>sg_current_amount := 10000\<rparr> \<in> set (savings_goals example_db_100) \<and>
   example_deposit \<in> set (savings_transactions example_db_100) \<and>
   st_savings_goal_id example_deposit = sg_id (example_goal\<lparr>sg_current_amount := 10000\<rparr>) \<and>
   delete_savings_transactions (Rls (Some 10)) (\<lambda>t. st_id t = 1) example_db_100 = Inr example_db_100 \<and>
   update_savings_transactions (Rls (Some 10)) (\<lambda>t. st_id t = 1) (\<lambda>t. t\<lparr>st_amount := 1\<rparr>)
     example_db_100 = Inr example_db_100 \<and>
   fired_on_delete_transactions (Rls (Some 10)) (\<lambda>t. st_id t = 1) example_db_100 = [] \<and>
   example_deposit \<in> set (fired_on_delete_goals
      (Rls (Some (sg_user_id (example_goal\<lparr>sg_current_amount := 10000\<rparr>)))) (\<lambda>g. True)
      example_db_100)"
proof -
  let ?G = "example_goal\<lparr>sg_current_amount := 10000\<rparr>"
  have h1: "?G \<in> set (savings_goals example_db_100)"
    and h3: "example_deposit \<in> set (savings_transactions example_db_100)"
    by (simp_all add: example_db_100_def)
  have h4: "st_savings_goal_id example_deposit = sg_id ?G"
    by (simp add: example_goal_def example_deposit_def)
  from no_user_write_on_transactions[of ?G example_db_100 "\<lambda>g. True" example_deposit
      "Some 10" _ "\<lambda>t. st_id t = 1", OF h1 _ h3 h4] h1 h3 h4
  show ?thesis by simp
qed

lemma update_rows_map:
  "list_all (\<lambda>r. wh r \<and> allowed_existing ps UPDATE db s r \<longrightarrow>
               setc r = Inr (f r) \<and> allowed_new ps UPDATE db s (f r)) rows \<Longrightarrow>
   update_rows ps db s wh setc rows =
     Inr (map (\<lambda>r. if wh r \<and> allowed_existing ps UPDATE db s r then f r else r) rows)"
  by (induction rows) auto

section \<open>Provisioning\<close>

lemma handle_new_user_alt:
  "handle_new_user NEW gid db =
     (if list_ex (\<lambda>x. pr_id x = gid) (profiles db) then Inl UniqueViolation
      else if list_ex (\<lambda>x. pr_user_id x = au_id NEW) (profiles db) then Inl UniqueViolation
      else if \<not> list_ex (\<lambda>u. au_id u = au_id NEW) (auth_users db) then Inl ForeignKeyViolation
      else Inr (db\<lparr>profiles := profiles db @ [provisioned_profile NEW gid]\<rparr>))"
  by (simp add: handle_new_user_def insert_profile_def refused_def insert_row_def bypass_allowed
      profile_constraints_def provisioned_profile_def)

lemma create_identity_alt:
  "create_identity NEW gid db =
     (if list_ex (\<lambda>u. au_id u = au_id NEW) (auth_users db) then Inl UniqueViolation
      else if list_ex (\<lambda>x. pr_id x = gid) (profiles db) then Inl UniqueViolation
      else if list_ex (\<lambda>x. pr_user_id x = au_id NEW) (profiles db) then Inl UniqueViolation
      else Inr (db\<lparr>auth_users := auth_users db @ [NEW],
                   profiles := profiles db @ [provisioned_profile NEW gid]\<rparr>))"
  by (simp add: create_identity_def handle_new_user_alt)

text \<open>
  Claim C5. When the creation of an identity succeeds, the identity row and one new
  profile row are in the database it returns (a failed creation returns none): the
  profile has the generated id, belongs to the identity, has the
  \<^verbatim>\<open>full_name\<close> of the metadata or, without one, the email, and has the role admin
  exactly when the email is \<^verbatim>\<open>admin@fms.com\<close>, user otherwise. It is the only profile
  of the identity. Repeating the creation event, with any generated id, fails on a
  unique constraint, and so does the trigger function alone, on the unique
  \<^verbatim>\<open>user_id\<close> of \<^verbatim>\<open>profiles\<close>. The creation does succeed when the identity and the
  generated id are new.
\<close>

theorem provisioning_creates_one_profile:
  "(create_identity NEW gid db = Inr db' \<longrightarrow>
      auth_users db' = auth_users db @ [NEW] \<and>
      profiles db' = profiles db @
        [\<lparr>pr_id = gid, pr_user_id = au_id NEW,
          pr_full_name = (case map_of (au_raw_user_meta_data NEW) ''full_name'' of
                            Some n \<Rightarrow> n | None \<Rightarrow> au_email NEW),
          pr_role = (if au_email NEW = ''admin@fms.com'' then ''admin'' else ''user'')\<rparr>] \<and>
      length (filter (\<lambda>p. pr_user_id p = au_id NEW) (profiles db')) = 1 \<and>
      (\<forall>p \<in> set (profiles db'). pr_user_id p = au_id NEW \<longrightarrow>
         (pr_role p = ''admin'') = (au_email NEW = ''admin@fms.com'') \<and>
         (pr_role p = ''user'') = (au_email NEW \<noteq> ''admin@fms.com'')) \<and>
      (\<forall>gid'. create_identity NEW gid' db' = Inl UniqueViolation) \<and>
      (\<forall>gid'. handle_new_user NEW gid' db' = Inl UniqueViolation)) \<and>
   (\<not> list_ex (\<lambda>u. au_id u = au_id NEW) (auth_users db) \<and>
    \<not> list_ex (\<lambda>p. pr_user_id p = au_id NEW) (profiles db) \<and>
    \<not> list_ex (\<lambda>p. pr_id p = gid) (profiles db) \<longrightarrow>
      (\<exists>db'. create_identity NEW gid db = Inr db'))"
proof -
  have "length (filter (\<lambda>p. pr_user_id p = au_id NEW) ps) = 0"
    if "\<not> list_ex (\<lambda>x. pr_user_id x = au_id NEW) ps" for ps
    using that by (simp add: list_ex_iff filter_empty_conv)
  then show ?thesis
    by (auto simp: create_identity_alt handle_new_user_alt provisioned_profile_def list_ex_iff
        split: if_splits)
qed

theorem provisioning_creates_one_profile_witness:
  "\<not> list_ex (\<lambda>u. au_id u = au_id example_new_user) (auth_users example_db) \<and>
   \<not> list_ex (\<lambda>p. pr_user_id p = au_id example_new_user) (profiles example_db) \<and>
   \<not> list_ex (\<lambda>p. pr_id p = 130) (profiles example_db) \<and>
   create_identity example_new_user 130 example_db = Inr example_db_provisioned \<and>
   length (filter (\<lambda>p. pr_user_id p = 30) (profiles example_db_provisioned)) = 1 \<and>
   create_identity example_new_user 131 example_db_provisioned = Inl UniqueViolation \<and>
   handle_new_user example_new_user 131 example_db_provisioned = Inl UniqueViolation \<and>
   map pr_role (profiles example_db_provisioned) = [''admin'', ''user'', ''user'', ''user'']"
proof -
  have h1: "\<not> list_ex (\<lambda>u. au_id u = au_id example_new_user) (auth_users example_db)"
    and h2: "\<not> list_ex (\<lambda>p. pr_user_id p = au_id example_new_user) (profiles example_db)"
    and h3: "\<not> list_ex (\<lambda>p. pr_id p = 130) (profiles example_db)"
    by (simp_all add: example_db_def example_users_def example_profiles_def example_new_user_def)
  have run: "create_identity example_new_user 130 example_db = Inr example_db_provisioned"
    by (simp add: create_identity_alt provisioned_profile_def example_db_provisioned_def
        example_db_def example_users_def example_profiles_def example_new_user_def)
  have id30: "au_id example_new_user = 30" by (simp add: example_new_user_def)
  note inst = provisioning_creates_one_profile[of example_new_user 130 example_db
      example_db_provisioned]
  from inst run
  have "length (filter (\<lambda>p. pr_user_id p = au_id example_new_user)
          (profiles example_db_provisioned)) = 1"
    and "create_identity example_new_user 131 example_db_provisioned = Inl UniqueViolation"
    and "handle_new_user example_new_user 131 example_db_provisioned = Inl UniqueViolation"
    by blast+
  moreover have "map pr_role (profiles example_db_provisioned) = [''admin'', ''user'', ''user'', ''user'']"
    by (simp add: example_db_provisioned_def example_db_def example_profiles_def)
  ultimately show ?thesis using h1 h2 h3 run by (simp add: id30)
qed

lemma provisioned_profile_ignores_role:
  assumes "au_id N1 = au_id N2" and "au_email N1 = au_email N2"
    and "\<forall>k. k \<noteq> ''role'' \<longrightarrow>
           map_of (au_raw_user_meta_data N1) k = map_of (au_raw_user_meta_data N2) k"
  shows "provisioned_profile N1 gid = provisioned_profile N2 gid"
proof -
  from assms(3) have "map_of (au_raw_user_meta_data N1) ''full_name''
      = map_of (au_raw_user_meta_data N2) ''full_name''"
    by simp
  with assms(1,2) show ?thesis by (simp add: provisioned_profile_def split: option.splits)
qed

lemma create_identity_ignores_role:
  assumes "au_id N1 = au_id N2" and "au_email N1 = au_email N2"
    and "\<forall>k. k \<noteq> ''role'' \<longrightarrow>
           map_of (au_raw_user_meta_data N1) k = map_of (au_raw_user_meta_data N2) k"
  shows "map_sum (\<lambda>e. e) profiles (create_identity N1 gid db)
           = map_sum (\<lambda>e. e) profiles (create_identity N2 gid db)"
    and "map_sum (\<lambda>e. e) profiles (handle_new_user N1 gid db)
           = map_sum (\<lambda>e. e) profiles (handle_new_user N2 gid db)"
  using provisioned_profile_ignores_role[OF assms, of gid] assms(1)
  by (simp_all add: create_identity_alt handle_new_user_alt)

text \<open>
  Claim C10. Two identity creation events with the same id and email, whose metadata
  agree on every key but \<^verbatim>\<open>role\<close>, leave the same profile table or fail with the
  same error; so do the two events that \<^verbatim>\<open>createUser\<close> builds from forms that differ
  in the role only. The role of the created profile is a function of the email alone.
\<close>

theorem metadata_role_ignored:
  "(au_id N1 = au_id N2 \<and> au_email N1 = au_email N2 \<and>
    (\<forall>k. k \<noteq> ''role'' \<longrightarrow>
        map_of (au_raw_user_meta_data N1) k = map_of (au_raw_user_meta_data N2) k) \<longrightarrow>
      map_sum (\<lambda>e. e) profiles (create_identity N1 gid db)
        = map_sum (\<lambda>e. e) profiles (create_identity N2 gid db) \<and>
      map_sum (\<lambda>e. e) profiles (handle_new_user N1 gid db)
        = map_sum (\<lambda>e. e) profiles (handle_new_user N2 gid db)) \<and>
   map_sum (\<lambda>e. e) profiles (create_identity (createUser (form\<lparr>nf_role := r1\<rparr>) uid) gid db)
     = map_sum (\<lambda>e. e) profiles (create_identity (createUser (form\<lparr>nf_role := r2\<rparr>) uid) gid db) \<and>
   (\<forall>db'. create_identity N1 gid db = Inr db' \<longrightarrow>
      pr_role (last (profiles db'))
        = (if au_email N1 = ''admin@fms.com'' then ''admin'' else ''user''))"
proof -
  have forms: "map_sum (\<lambda>e. e) profiles (create_identity (createUser (form\<lparr>nf_role := r1\<rparr>) uid) gid db)
     = map_sum (\<lambda>e. e) profiles (create_identity (createUser (form\<lparr>nf_role := r2\<rparr>) uid) gid db)"
    by (rule create_identity_ignores_role(1)) (simp_all add: createUser_def)
  have role: "pr_role (last (profiles db'))
        = (if au_email N1 = ''admin@fms.com'' then ''admin'' else ''user'')"
    if "create_identity N1 gid db = Inr db'" for db'
    using that by (auto simp: create_identity_alt provisioned_profile_def split: if_splits)
  from forms role create_identity_ignores_role[of N1 N2 gid db] show ?thesis by blast
qed

theorem metadata_role_ignored_witness:
  "au_id (createUser example_form 40) = au_id (createUser (example_form\<lparr>nf_role := ''user''\<rparr>) 40) \<and>
   au_email (createUser example_form 40) = au_email (createUser (example_form\<lparr>nf_role := ''user''\<rparr>) 40) \<and>
   map_of (au_raw_user_meta_data (createUser example_form 40)) ''full_name''
     = map_of (au_raw_user_meta_data (createUser (example_form\<lparr>nf_role := ''user''\<rparr>) 40)) ''full_name'' \<and>
   map_of (au_raw_user_meta_data (createUser example_form 40)) ''role'' = Some ''admin'' \<and>
   map_of (au_raw_user_meta_data (createUser (example_form\<lparr>nf_role := ''user''\<rparr>) 40)) ''role''
     = Some ''user'' \<and>
   map_sum (\<lambda>e. e) profiles (create_identity (createUser example_form 40) 140 example_db)
     = Inr (example_profiles @
         [\<lparr>pr_id = 140, pr_user_id = 40, pr_full_name = ''Yaw'', pr_role = ''user''\<rparr>]) \<and>
   map_sum (\<lambda>e. e) profiles
       (create_identity (createUser (example_form\<lparr>nf_role := ''user''\<rparr>) 40) 140 example_db)
     = Inr (example_profiles @
         [\<lparr>pr_id = 140, pr_user_id = 40, pr_full_name = ''Yaw'', pr_role = ''user''\<rparr>])"
proof -
  let ?N1 = "createUser example_form 40"
  let ?N2 = "createUser (example_form\<lparr>nf_role := ''user''\<rparr>) 40"
  have h1: "au_id ?N1 = au_id ?N2" and h2: "au_email ?N1 = au_email ?N2"
    and h3: "\<forall>k. k \<noteq> ''role'' \<longrightarrow>
      map_of (au_raw_user_meta_data ?N1) k = map_of (au_raw_user_meta_data ?N2) k"
    and h4: "map_of (au_raw_user_meta_data ?N1) ''role'' = Some ''admin''"
      "map_of (au_raw_user_meta_data ?N2) ''role'' = Some ''user''"
    by (simp_all add: createUser_def example_form_def)
  have run: "map_sum (\<lambda>e. e) profiles (create_identity ?N1 140 example_db)
     = Inr (example_profiles @
         [\<lparr>pr_id = 140, pr_user_id = 40, pr_full_name = ''Yaw'', pr_role = ''user''\<rparr>])"
    by (simp add: create_identity_alt provisioned_profile_def createUser_def example_form_def
        example_db_def example_users_def example_profiles_def)
  from metadata_role_ignored[of ?N1 ?N2 140 example_db] h1 h2 h3 h4 run
  show ?thesis by simp
qed

lemma goal_constraints_Inr:
  "savings_goal_constraints db old g = Inr g' \<Longrightarrow> g' = g"
  by (auto simp: savings_goal_constraints_def split: if_splits)

section \<open>Statements the engine refuses\<close>

lemma admin_subselects:
  "applicable_subselects expense_categories_policies cs = (if cs = [] then [] else [Profiles])"
  "applicable_subselects currency_rates_policies cs = (if cs = [] then [] else [Profiles])"
  by (cases cs; auto simp: applicable_subselects_def expense_categories_policies_def
      currency_rates_policies_def)+

lemma profiles_subselects:
  "applicable_subselects profiles_policies [SELECT] = [Profiles]"
  "applicable_subselects profiles_policies [INSERT] = [Profiles]"
  "applicable_subselects profiles_policies [UPDATE] = []"
  "applicable_subselects profiles_policies [SELECT, UPDATE] = [Profiles]"
  "applicable_subselects profiles_policies [SELECT, DELETE] = [Profiles]"
  by (simp_all add: applicable_subselects_def profiles_policies_def)

lemma profiles_recursion:
  "recursion_detected (Profiles # active) Profiles [Profiles]"
  by (simp add: recursion_detected.simps)

lemma admin_tables_recursion:
  "recursion_detected [] Profiles [Profiles]"
  "recursion_detected [] Expense_categories [Profiles]"
  "recursion_detected [] Currency_rates [Profiles]"
  "\<not> recursion_detected [] t []"
  by (simp_all add: recursion_detected.simps profiles_subselects)

lemma refused_admin_tables:
  "cs \<noteq> [] \<Longrightarrow> refused (Rls caller) Expense_categories expense_categories_policies cs"
  "cs \<noteq> [] \<Longrightarrow> refused (Rls caller) Currency_rates currency_rates_policies cs"
  "refused (Rls caller) Profiles profiles_policies [SELECT]"
  "refused (Rls caller) Profiles profiles_policies [INSERT]"
  "refused (Rls caller) Profiles profiles_policies [SELECT, UPDATE]"
  "refused (Rls caller) Profiles profiles_policies [SELECT, DELETE]"
  "\<not> refused (Rls caller) Profiles profiles_policies [UPDATE]"
  "\<not> refused BypassRls t ps cs"
  by (simp_all add: refused_def admin_subselects profiles_subselects admin_tables_recursion)

lemma other_subselects:
  "applicable_subselects income_records_policies cs = []"
  "applicable_subselects expense_records_policies cs = []"
  "applicable_subselects savings_goals_policies cs = []"
  "set (applicable_subselects savings_transactions_policies cs) \<subseteq> {Savings_goals}"
  by (auto simp: applicable_subselects_def income_records_policies_def
      expense_records_policies_def savings_goals_policies_def savings_transactions_policies_def)

text \<open>
  The statements on the other four tables are written without the test of \<open>refused\<close>:
  for them it is never positive.
\<close>

lemma never_refused:
  "\<not> refused s Income_records income_records_policies cs"
  "\<not> refused s Expense_records expense_records_policies cs"
  "\<not> refused s Savings_goals savings_goals_policies cs"
  "\<not> refused s Savings_transactions savings_transactions_policies cs"
proof -
  show "\<not> refused s Income_records income_records_policies cs"
    "\<not> refused s Expense_records expense_records_policies cs"
    "\<not> refused s Savings_goals savings_goals_policies cs"
    by (simp_all add: refused_def other_subselects admin_tables_recursion split: session.splits)
  have sg: "\<not> recursion_detected a Savings_goals (select_subselects Savings_goals)" for a
    by (subst recursion_detected.simps) (simp add: other_subselects)
  have "\<not> recursion_detected [] Savings_transactions subs" if "set subs \<subseteq> {Savings_goals}" for subs
    by (subst recursion_detected.simps) (use that sg in \<open>auto simp: list_ex_iff\<close>)
  then show "\<not> refused s Savings_transactions savings_transactions_policies cs"
    using other_subselects(4)[of cs] by (simp add: refused_def split: session.splits)
qed

text \<open>
  Claim C8. The policies are written for what the claim says: ``Everyone can view'' with
  \<^verbatim>\<open>USING (true)\<close>, ``Admins can manage'' for all commands, ``Admins can view all
  profiles''. But each admin policy sub-selects \<^verbatim>\<open>profiles\<close>, and the select policy
  ``Admins can view all profiles'' of \<^verbatim>\<open>profiles\<close> sub-selects \<^verbatim>\<open>profiles\<close> again. So
  in every session subject to the policies, whoever the caller is and whatever the rows
  are, every select from \<^verbatim>\<open>expense_categories\<close>, \<^verbatim>\<open>currency_rates\<close> and \<^verbatim>\<open>profiles\<close>
  fails with ``infinite recursion detected in policy'', and so does every insert, update
  and delete on the two reference tables: nothing the claim calls allowed is allowed.
\<close>

theorem admin_policies_refused:
  "select_expense_categories (Rls caller) wh_c db = Inl InfiniteRecursion \<and>
   select_currency_rates (Rls caller) wh_r db = Inl InfiniteRecursion \<and>
   select_profiles (Rls caller) wh_p db = Inl InfiniteRecursion \<and>
   insert_expense_category (Rls caller) c db = Inl InfiniteRecursion \<and>
   refused (Rls caller) Expense_categories expense_categories_policies [INSERT] \<and>
   refused (Rls caller) Expense_categories expense_categories_policies [SELECT, UPDATE] \<and>
   refused (Rls caller) Expense_categories expense_categories_policies [UPDATE] \<and>
   refused (Rls caller) Expense_categories expense_categories_policies [SELECT, DELETE] \<and>
   refused (Rls caller) Expense_categories expense_categories_policies [DELETE] \<and>
   refused (Rls caller) Currency_rates currency_rates_policies [INSERT] \<and>
   refused (Rls caller) Currency_rates currency_rates_policies [SELECT, UPDATE] \<and>
   refused (Rls caller) Currency_rates currency_rates_policies [UPDATE] \<and>
   refused (Rls caller) Currency_rates currency_rates_policies [SELECT, DELETE] \<and>
   refused (Rls caller) Currency_rates currency_rates_policies [DELETE]"
  by (simp add: select_expense_categories_def select_currency_rates_def select_profiles_def
      insert_expense_category_def refused_admin_tables)

theorem admin_policies_refused_witness:
  "select_expense_categories (Rls (Some 10)) (\<lambda>c. True) example_db = Inl InfiniteRecursion \<and>
   select_expense_categories (Rls None) (\<lambda>c. True) example_db = Inl InfiniteRecursion \<and>
   exists_admin_profile example_db (Some 1) \<and>
   select_profiles (Rls (Some 1)) (\<lambda>p. True) example_db = Inl InfiniteRecursion \<and>
   insert_expense_category (Rls (Some 1))
     \<lparr>ec_id = 2, ec_name = ''Food'', ec_description = None\<rparr> example_db = Inl InfiniteRecursion \<and>
   select_expense_categories BypassRls (\<lambda>c. True) example_db = Inr [example_category] \<and>
   select_currency_rates BypassRls (\<lambda>r. True) example_db = Inr [example_rate]"
proof -
  have adm: "exists_admin_profile example_db (Some 1)"
    by (simp add: exists_admin_profile_def example_db_def example_profiles_def)
  have owner: "select_expense_categories BypassRls (\<lambda>c. True) example_db = Inr [example_category]"
    "select_currency_rates BypassRls (\<lambda>r. True) example_db = Inr [example_rate]"
    by (simp_all add: select_expense_categories_def select_currency_rates_def refused_def
        select_rows_def bypass_allowed example_db_def)
  from admin_policies_refused[of "Some 10" "\<lambda>c. True" example_db]
    admin_policies_refused[of None "\<lambda>c. True" example_db]
    admin_policies_refused[of "Some 1" _ example_db _ "\<lambda>p. True"
      "\<lparr>ec_id = 2, ec_name = ''Food'', ec_description = None\<rparr>"]
    adm owner
  show ?thesis by simp
qed

section \<open>Profiles\<close>

lemma profile_update_policy:
  "using_ok profiles_policies UPDATE db caller p = (caller = Some (pr_user_id p))"
  "check_ok profiles_policies UPDATE db caller p = (caller = Some (pr_user_id p))"
  by (auto simp: using_ok_def check_ok_def profiles_policies_def)

lemma update_all_rows_Inr:
  assumes "\<And>r r'. setc r = Inr r' \<Longrightarrow> r' = f r"
  shows "update_all_rows ps db (Rls caller) setc rows = Inr rows' \<Longrightarrow>
         rows' = map (\<lambda>r. if using_ok ps UPDATE db caller r then f r else r) rows"
proof (induction rows arbitrary: rows')
  case Nil
  then show ?case by simp
next
  case (Cons r rows)
  then show ?case using assms
    by (auto split: if_splits sum.splits)
qed

lemma update_all_rows_map:
  "list_all (\<lambda>r. using_ok ps UPDATE db caller r \<longrightarrow>
               setc r = Inr (f r) \<and> check_ok ps UPDATE db caller (f r)) rows \<Longrightarrow>
   update_all_rows ps db (Rls caller) setc rows =
     Inr (map (\<lambda>r. if using_ok ps UPDATE db caller r then f r else r) rows)"
  by (induction rows) auto

lemma profile_constraints_Inr:
  "profile_constraints db old p = Inr p' \<Longrightarrow> p' = p"
  by (auto simp: profile_constraints_def split: if_splits)

text \<open>
  Claim C9, amended. The one update policy of \<^verbatim>\<open>profiles\<close> is ownership: a row passes
  it exactly in the session of the identity it belongs to, and the row written must
  still belong to that identity. It names no column: an update of the own profile may
  set the role as well as the name. And no policy lets another caller, an admin
  included, update a row: an update changes the caller's own rows only.
\<close>

theorem profile_update_rights:
  "using_ok profiles_policies UPDATE db caller p = (caller = Some (pr_user_id p)) \<and>
   check_ok profiles_policies UPDATE db caller p' = (caller = Some (pr_user_id p')) \<and>
   (update_profiles (Rls caller) None u db = Inr db' \<longrightarrow>
      profiles db' = map (\<lambda>x. if caller = Some (pr_user_id x) then apply_profile_update u x else x)
                       (profiles db)) \<and>
   ((role' = ''admin'' \<or> role' = ''user'') \<and>
    list_ex (\<lambda>a. au_id a = owner) (auth_users db) \<longrightarrow>
      update_profiles (Rls (Some owner)) None
        (no_profile_update\<lparr>upd_pr_full_name := Some name', upd_pr_role := Some role'\<rparr>) db =
      Inr (db\<lparr>profiles := map (\<lambda>x. if pr_user_id x = owner
                                   then x\<lparr>pr_full_name := name', pr_role := role'\<rparr> else x)
                             (profiles db)\<rparr>))"
proof -
  have any: "profiles db' = map (\<lambda>x. if caller = Some (pr_user_id x) then apply_profile_update u x else x)
                       (profiles db)"
    if "update_profiles (Rls caller) None u db = Inr db'"
  proof -
    from that obtain ps where
      r: "update_all_rows profiles_policies db (Rls caller)
            (\<lambda>p. profile_constraints db (Some p) (apply_profile_update u p)) (profiles db) = Inr ps"
      and db': "db' = db\<lparr>profiles := ps\<rparr>"
      by (auto simp: update_profiles_def refused_admin_tables split: sum.splits)
    have "ps = map (\<lambda>r. if using_ok profiles_policies UPDATE db caller r
                         then apply_profile_update u r else r) (profiles db)"
      by (rule update_all_rows_Inr[OF _ r]) (auto dest: profile_constraints_Inr)
    with db' show ?thesis by (simp add: profile_update_policy)
  qed
  have own: "update_profiles (Rls (Some owner)) None
        (no_profile_update\<lparr>upd_pr_full_name := Some name', upd_pr_role := Some role'\<rparr>) db =
      Inr (db\<lparr>profiles := map (\<lambda>x. if pr_user_id x = owner
                                   then x\<lparr>pr_full_name := name', pr_role := role'\<rparr> else x)
                             (profiles db)\<rparr>)"
    if "role' = ''admin'' \<or> role' = ''user''" and "list_ex (\<lambda>a. au_id a = owner) (auth_users db)"
  proof -
    let ?u = "no_profile_update\<lparr>upd_pr_full_name := Some name', upd_pr_role := Some role'\<rparr>"
    let ?f = "\<lambda>x. x\<lparr>pr_full_name := name', pr_role := role'\<rparr>"
    have app: "apply_profile_update ?u x = ?f x" for x
      by (simp add: apply_profile_update_def no_profile_update_def)
    have "update_all_rows profiles_policies db (Rls (Some owner))
            (\<lambda>p. profile_constraints db (Some p) (apply_profile_update ?u p)) (profiles db) =
          Inr (map (\<lambda>r. if using_ok profiles_policies UPDATE db (Some owner) r then ?f r else r)
                 (profiles db))"
    proof (rule update_all_rows_map[where f = ?f], unfold list_all_iff, intro ballI impI conjI)
      fix r
      assume "using_ok profiles_policies UPDATE db (Some owner) r"
      then have r: "pr_user_id r = owner" by (simp add: profile_update_policy)
      with that show "profile_constraints db (Some r) (apply_profile_update ?u r) = Inr (?f r)"
        by (auto simp: profile_constraints_def app)
      from r show "check_ok profiles_policies UPDATE db (Some owner) (?f r)"
        by (simp add: profile_update_policy)
    qed
    then show ?thesis
      by (simp add: update_profiles_def refused_admin_tables profile_update_policy cong: map_cong)
  qed
  from any own show ?thesis by (simp add: profile_update_policy)
qed

text \<open>
  The claim as stated fails twice. The user 20 sets the role of the own profile to admin
  with \<^verbatim>\<open>UPDATE profiles SET role = 'admin'\<close>. The admin 1 cannot rename the profile of
  the user 10: \<^verbatim>\<open>UPDATE profiles SET full_name = 'Renamed'\<close> renames the admin's own
  profile only, and with \<^verbatim>\<open>WHERE user_id = 10\<close> the statement is refused.
\<close>

theorem profile_update_counterexample:
  "update_profiles (Rls (Some 20)) None (no_profile_update\<lparr>upd_pr_role := Some ''admin''\<rparr>)
     example_db =
     Inr (example_db\<lparr>profiles :=
       [\<lparr>pr_id = 101, pr_user_id = 1, pr_full_name = ''Admin'', pr_role = ''admin''\<rparr>,
        \<lparr>pr_id = 110, pr_user_id = 10, pr_full_name = ''Ama'', pr_role = ''user''\<rparr>,
        \<lparr>pr_id = 120, pr_user_id = 20, pr_full_name = ''kofi@example.com'', pr_role = ''admin''\<rparr>]\<rparr>) \<and>
   exists_admin_profile example_db (Some 1) \<and>
   update_profiles (Rls (Some 1)) None (no_profile_update\<lparr>upd_pr_full_name := Some ''Renamed''\<rparr>)
     example_db =
     Inr (example_db\<lparr>profiles :=
       [\<lparr>pr_id = 101, pr_user_id = 1, pr_full_name = ''Renamed'', pr_role = ''admin''\<rparr>,
        \<lparr>pr_id = 110, pr_user_id = 10, pr_full_name = ''Ama'', pr_role = ''user''\<rparr>,
        \<lparr>pr_id = 120, pr_user_id = 20, pr_full_name = ''kofi@example.com'', pr_role = ''user''\<rparr>]\<rparr>) \<and>
   update_profiles (Rls (Some 1)) (Some (\<lambda>p. pr_user_id p = 10))
     (no_profile_update\<lparr>upd_pr_full_name := Some ''Renamed''\<rparr>) example_db
     = Inl InfiniteRecursion"
  by (simp add: update_profiles_def refused_admin_tables profile_update_policy
      profile_constraints_def apply_profile_update_def no_profile_update_def
      exists_admin_profile_def example_db_def example_profiles_def example_users_def)

theorem profile_update_rights_witness:
  "list_ex (\<lambda>a. au_id a = 20) (auth_users example_db) \<and>
   update_profiles (Rls (Some 20)) None
     (no_profile_update\<lparr>upd_pr_full_name := Some ''Kofi'', upd_pr_role := Some ''admin''\<rparr>) example_db =
     Inr (example_db\<lparr>profiles :=
       [\<lparr>pr_id = 101, pr_user_id = 1, pr_full_name = ''Admin'', pr_role = ''admin''\<rparr>,
        \<lparr>pr_id = 110, pr_user_id = 10, pr_full_name = ''Ama'', pr_role = ''user''\<rparr>,
        \<lparr>pr_id = 120, pr_user_id = 20, pr_full_name = ''Kofi'', pr_role = ''admin''\<rparr>]\<rparr>) \<and>
   using_ok profiles_policies UPDATE example_db (Some 20)
     \<lparr>pr_id = 120, pr_user_id = 20, pr_full_name = ''kofi@example.com'', pr_role = ''user''\<rparr> \<and>
   \<not> using_ok profiles_policies UPDATE example_db (Some 1)
     \<lparr>pr_id = 120, pr_user_id = 20, pr_full_name = ''kofi@example.com'', pr_role = ''user''\<rparr>"
proof -
  have h: "list_ex (\<lambda>a. au_id a = 20) (auth_users example_db)"
    by (simp add: example_db_def example_users_def)
  let ?p = "\<lparr>pr_id = 120, pr_user_id = 20, pr_full_name = ''kofi@example.com'', pr_role = ''user''\<rparr>"
  from profile_update_rights[of example_db "Some 20" ?p _ _ _ "''admin''" 20 "''Kofi''"]
    profile_update_rights[of example_db "Some 1" ?p] h
  show ?thesis by (simp add: example_db_def example_profiles_def)
qed

section \<open>Writes of \<open>current_amount\<close>\<close>

lemma goalData_keeps_current_amount:
  "sg_current_amount (apply_goal_update (goalData parse user form) g) = sg_current_amount g"
  "sg_id (apply_goal_update (goalData parse user form) g) = sg_id g"
  by (simp_all add: goalData_def apply_goal_update_def)

lemma goal_form_update_keeps_balance:
  assumes "update_savings_goals s wh (goalData parse user form) db = Inr db'"
  shows "map sg_current_amount (savings_goals db') = map sg_current_amount (savings_goals db)"
    and "savings_transactions db' = savings_transactions db"
proof -
  from assms obtain gs where
    u: "update_rows savings_goals_policies db s wh
          (\<lambda>g. savings_goal_constraints db (Some g) (apply_goal_update (goalData parse user form) g))
          (savings_goals db) = Inr gs"
    and db': "db' = db\<lparr>savings_goals := gs\<rparr>"
    by (auto simp: update_savings_goals_def split: if_splits sum.splits)
  have "map sg_current_amount gs = map sg_current_amount (savings_goals db)"
    by (rule update_rows_keeps_field[OF _ u])
       (auto dest: goal_constraints_Inr simp: goalData_keeps_current_amount)
  with db' show "map sg_current_amount (savings_goals db') = map sg_current_amount (savings_goals db)"
    and "savings_transactions db' = savings_transactions db"
    by simp_all
qed

lemma goal_form_insert_default_balance:
  assumes "insert_savings_goal s g db = Inr db'"
  shows "savings_goals db' = savings_goals db @ [g]"
    and "savings_transactions db' = savings_transactions db"
  using assms
  by (auto simp: insert_savings_goal_def insert_row_def split: if_splits sum.splits)

lemma owner_sets_current_amount:
  assumes "decimal_15_2 v"
    and "list_all (\<lambda>g. wh g \<and> sg_user_id g = owner \<longrightarrow>
                     savings_goal_constraints db (Some g) g = Inr g) (savings_goals db)"
  shows "update_savings_goals (Rls (Some owner)) wh
           (no_goal_update\<lparr>upd_sg_current_amount := Some v\<rparr>) db =
     Inr (db\<lparr>savings_goals := map (\<lambda>g. if wh g \<and> sg_user_id g = owner
                                      then g\<lparr>sg_current_amount := v\<rparr> else g)
                                (savings_goals db)\<rparr>)"
proof -
  let ?u = "no_goal_update\<lparr>upd_sg_current_amount := Some v\<rparr>"
  let ?f = "\<lambda>g. g\<lparr>sg_current_amount := v\<rparr>"
  have app: "apply_goal_update ?u g = ?f g" for g
    by (simp add: apply_goal_update_def no_goal_update_def)
  have fits: "goal_update_fits ?u"
    using assms(1) by (simp add: goal_update_fits_def no_goal_update_def)
  have "update_rows savings_goals_policies db (Rls (Some owner)) wh
          (\<lambda>g. savings_goal_constraints db (Some g) (apply_goal_update ?u g)) (savings_goals db) =
        Inr (map (\<lambda>r. if wh r \<and> allowed_existing savings_goals_policies UPDATE db (Rls (Some owner)) r
                      then ?f r else r) (savings_goals db))"
  proof (rule update_rows_map[where f = ?f], unfold list_all_iff, intro ballI impI conjI)
    fix r
    assume r: "r \<in> set (savings_goals db)"
      and "wh r \<and> allowed_existing savings_goals_policies UPDATE db (Rls (Some owner)) r"
    then have t: "wh r" "sg_user_id r = owner" by (simp_all add: goal_allowed)
    with assms(2) r have "savings_goal_constraints db (Some r) r = Inr r"
      by (auto simp: list_all_iff)
    with assms(1) show "savings_goal_constraints db (Some r) (apply_goal_update ?u r) = Inr (?f r)"
      unfolding app by (auto simp: savings_goal_constraints_def split: if_splits)
    from t show "allowed_new savings_goals_policies UPDATE db (Rls (Some owner)) (?f r)"
      by (simp add: goal_allowed)
  qed
  with fits show ?thesis
    by (auto simp: update_savings_goals_def goal_allowed cong: map_cong)
qed

text \<open>
  Claim C6, amended. The goal form never writes \<^verbatim>\<open>current_amount\<close>: its update
  leaves the \<^verbatim>\<open>current_amount\<close> of every goal and the transactions as they are, and
  its insert stores the default 0. The policies do not disallow a direct write: a goal
  passes the update policy, before and after a change of \<^verbatim>\<open>current_amount\<close>,
  exactly in the session of its owner, and the owner's
  \<^verbatim>\<open>UPDATE savings_goals SET current_amount = v\<close> succeeds for any value of the
  column type.
\<close>

theorem current_amount_write_paths:
  "(handleGoalSubmit parse user gid (Some eg) form db = Saved db' \<longrightarrow>
      map sg_current_amount (savings_goals db') = map sg_current_amount (savings_goals db) \<and>
      savings_transactions db' = savings_transactions db) \<and>
   (handleGoalSubmit parse user gid None form db = Saved db' \<longrightarrow>
      (\<exists>g. savings_goals db' = savings_goals db @ [g] \<and> sg_id g = gid \<and>
            sg_current_amount g = 0) \<and>
      savings_transactions db' = savings_transactions db) \<and>
   allowed_existing savings_goals_policies UPDATE db (Rls caller) g
     = (caller = Some (sg_user_id g)) \<and>
   allowed_new savings_goals_policies UPDATE db (Rls caller) (g\<lparr>sg_current_amount := v\<rparr>)
     = (caller = Some (sg_user_id g)) \<and>
   (decimal_15_2 v \<and>
    list_all (\<lambda>g. wh g \<and> sg_user_id g = owner \<longrightarrow>
                     savings_goal_constraints db (Some g) g = Inr g) (savings_goals db) \<longrightarrow>
      update_savings_goals (Rls (Some owner)) wh
        (no_goal_update\<lparr>upd_sg_current_amount := Some v\<rparr>) db =
        Inr (db\<lparr>savings_goals := map (\<lambda>g. if wh g \<and> sg_user_id g = owner
                                         then g\<lparr>sg_current_amount := v\<rparr> else g)
                                   (savings_goals db)\<rparr>))"
proof -
  have edit: "map sg_current_amount (savings_goals db') = map sg_current_amount (savings_goals db) \<and>
      savings_transactions db' = savings_transactions db"
    if "handleGoalSubmit parse user gid (Some eg) form db = Saved db'"
    using that goal_form_update_keeps_balance[of "Rls (Some user)" "\<lambda>g. sg_id g = sg_id eg"
        parse user form db db']
    by (auto simp: handleGoalSubmit_def split: if_splits sum.splits)
  have new: "(\<exists>g. savings_goals db' = savings_goals db @ [g] \<and> sg_id g = gid \<and>
            sg_current_amount g = 0) \<and> savings_transactions db' = savings_transactions db"
    if "handleGoalSubmit parse user gid None form db = Saved db'"
  proof -
    let ?g0 = "\<lparr>sg_id = gid, sg_user_id = user, sg_name = [], sg_target_amount = 0,
                   sg_current_amount = 0, sg_currency = USD, sg_target_date = None,
                   sg_goal_type = [], sg_description = None, sg_is_active = True\<rparr>"
    from that have ins: "insert_savings_goal (Rls (Some user))
        (apply_goal_update (goalData parse user form) ?g0) db = Inr db'"
      by (auto simp: handleGoalSubmit_def split: if_splits sum.splits)
    from goal_form_insert_default_balance[OF ins]
    show ?thesis by (simp add: goalData_keeps_current_amount)
  qed
  from edit new owner_sets_current_amount[of v wh owner db] show ?thesis
    by (simp add: goal_allowed)
qed

text \<open>
  The claim as stated fails: the owner of goal 1, which has no transaction, sets its
  \<^verbatim>\<open>current_amount\<close> to 500.00 with one update, and the balance no longer is the sum
  of the transactions.
\<close>

theorem direct_write_counterexample:
  "savings_transactions example_db = [] \<and> balance_invariant example_db \<and>
   update_savings_goals (Rls (Some 10)) (\<lambda>g. sg_id g = 1) (no_goal_update\<lparr>upd_sg_current_amount := Some 50000\<rparr>)
     example_db = Inr (example_db\<lparr>savings_goals := [example_goal\<lparr>sg_current_amount := 50000\<rparr>]\<rparr>) \<and>
   \<not> balance_invariant (example_db\<lparr>savings_goals := [example_goal\<lparr>sg_current_amount := 50000\<rparr>]\<rparr>)"
  by (simp add: update_savings_goals_def goal_allowed savings_goal_constraints_def goal_update_fits_def apply_goal_update_def no_goal_update_def
      decimal_15_2_def balance_invariant_def deposits_minus_withdrawals_def
      example_db_def example_goal_def example_users_def)

theorem current_amount_write_paths_witness:
  "handleGoalSubmit (\<lambda>t. 600000) 10 2 (Some example_goal) example_goal_form example_db_100
     = Saved (example_db_100\<lparr>savings_goals := [example_goal_edited]\<rparr>) \<and>
   handleGoalSubmit (\<lambda>t. 600000) 10 2 None example_goal_form example_db_100
     = Saved (example_db_100\<lparr>savings_goals :=
          [example_goal\<lparr>sg_current_amount := 10000\<rparr>, example_goal_created]\<rparr>) \<and>
   map sg_current_amount (savings_goals example_db_100) = [10000] \<and>
   sg_current_amount example_goal_edited = 10000 \<and>
   sg_current_amount example_goal_created = 0 \<and>
   decimal_15_2 50000 \<and>
   list_all (\<lambda>g. sg_id g = 1 \<and> sg_user_id g = 10 \<longrightarrow>
               savings_goal_constraints example_db_100 (Some g) g = Inr g)
     (savings_goals example_db_100) \<and>
   update_savings_goals (Rls (Some 10)) (\<lambda>g. sg_id g = 1) (no_goal_update\<lparr>upd_sg_current_amount := Some 50000\<rparr>)
     example_db_100 =
     Inr (example_db_100\<lparr>savings_goals := [example_goal\<lparr>sg_current_amount := 50000\<rparr>]\<rparr>)"
proof -
  note defs = example_db_100_def example_db_def example_goal_def example_users_def
    example_goal_form_def example_goal_edited_def example_goal_created_def
  have e: "handleGoalSubmit (\<lambda>t. 600000) 10 2 (Some example_goal) example_goal_form example_db_100
     = Saved (example_db_100\<lparr>savings_goals := [example_goal_edited]\<rparr>)"
    by (simp add: handleGoalSubmit_def update_savings_goals_def goalData_def goal_update_fits_def apply_goal_update_def goal_allowed
        savings_goal_constraints_def decimal_15_2_def defs)
  have n: "handleGoalSubmit (\<lambda>t. 600000) 10 2 None example_goal_form example_db_100
     = Saved (example_db_100\<lparr>savings_goals :=
          [example_goal\<lparr>sg_current_amount := 10000\<rparr>, example_goal_created]\<rparr>)"
    by (simp add: handleGoalSubmit_def insert_savings_goal_def insert_row_def goalData_def apply_goal_update_def
        goal_allowed savings_goal_constraints_def decimal_15_2_def defs)
  have d: "decimal_15_2 50000" by (simp add: decimal_15_2_def)
  have c: "list_all (\<lambda>g. sg_id g = 1 \<and> sg_user_id g = 10 \<longrightarrow>
               savings_goal_constraints example_db_100 (Some g) g = Inr g)
     (savings_goals example_db_100)"
    by (simp add: savings_goal_constraints_def decimal_15_2_def defs)
  have vals: "map sg_current_amount (savings_goals example_db_100) = [10000]"
    "sg_current_amount example_goal_edited = 10000" "sg_current_amount example_goal_created = 0"
    by (simp_all add: defs)
  have rows: "savings_goals example_db_100 = [example_goal\<lparr>sg_current_amount := 10000\<rparr>]"
    by (simp add: example_db_100_def)
  from current_amount_write_paths[of "\<lambda>t. 600000" 10 2 example_goal example_goal_form
      example_db_100 "example_db_100\<lparr>savings_goals := [example_goal_edited]\<rparr>"
      _ _ 50000 "\<lambda>g. sg_id g = 1" 10] e d c
  have "update_savings_goals (Rls (Some 10)) (\<lambda>g. sg_id g = 1)
     (no_goal_update\<lparr>upd_sg_current_amount := Some 50000\<rparr>) example_db_100 =
     Inr (example_db_100\<lparr>savings_goals := map (\<lambda>g. if sg_id g = 1 \<and> sg_user_id g = 10
                                         then g\<lparr>sg_current_amount := 50000\<rparr> else g)
                                   (savings_goals example_db_100)\<rparr>)"
    by blast
  then have "update_savings_goals (Rls (Some 10)) (\<lambda>g. sg_id g = 1)
     (no_goal_update\<lparr>upd_sg_current_amount := Some 50000\<rparr>) example_db_100 =
     Inr (example_db_100\<lparr>savings_goals := [example_goal\<lparr>sg_current_amount := 50000\<rparr>]\<rparr>)"
    by (simp add: rows example_goal_def)
  with e n d c vals show ?thesis by simp
qed

end
